theory Spec2Isabelle
  imports Complex_Main "HOL-Library.Sublist"
begin

section \<open>Python strings\<close>

text \<open>
  A Python \<open>str\<close> is modelled as a \<open>string\<close> (a list of 8-bit characters); \<open>len\<close> is
  \<open>length\<close>. The character classes are those of Python on ASCII: \<open>str.isspace\<close> holds
  for the codes 9 to 13, 28 to 31 and 32, \<open>str.isdigit\<close> for \<open>0\<close> to \<open>9\<close>, and
  \<open>str.upper\<close> / \<open>str.lower\<close> move the 26 letters only. Texts outside ASCII are not
  covered by the model.
\<close>

definition NL :: string where
  "NL = [CHR 0x0A]"

definition isspace :: "char \<Rightarrow> bool" where
  "isspace c \<longleftrightarrow> (let n = (of_char c :: nat) in (9 \<le> n \<and> n \<le> 13) \<or> (28 \<le> n \<and> n \<le> 32))"

definition isdigit :: "char \<Rightarrow> bool" where
  "isdigit c \<longleftrightarrow> (let n = (of_char c :: nat) in 48 \<le> n \<and> n \<le> 57)"

definition isalpha :: "char \<Rightarrow> bool" where
  "isalpha c \<longleftrightarrow> (let n = (of_char c :: nat) in (65 \<le> n \<and> n \<le> 90) \<or> (97 \<le> n \<and> n \<le> 122))"

definition upper_char :: "char \<Rightarrow> char" where
  "upper_char c = (let n = (of_char c :: nat) in if 97 \<le> n \<and> n \<le> 122 then char_of (n - 32) else c)"

definition lower_char :: "char \<Rightarrow> char" where
  "lower_char c = (let n = (of_char c :: nat) in if 65 \<le> n \<and> n \<le> 90 then char_of (n + 32) else c)"

definition upper :: "string \<Rightarrow> string" where
  "upper s = map upper_char s"

text \<open>\<open>s.strip()\<close>: whitespace removed at both ends.\<close>

definition lstrip :: "string \<Rightarrow> string" where
  "lstrip s = dropWhile isspace s"

definition rstrip :: "string \<Rightarrow> string" where
  "rstrip s = rev (dropWhile isspace (rev s))"

definition strip :: "string \<Rightarrow> string" where
  "strip s = rstrip (lstrip s)"

text \<open>\<open>sep.join(parts)\<close>.\<close>

fun join :: "string \<Rightarrow> string list \<Rightarrow> string" where
  "join sep [] = []"
| "join sep [x] = x"
| "join sep (x # y # ys) = x @ sep @ join sep (y # ys)"

text \<open>\<open>str(n)\<close> for an integer: decimal digits, with a minus sign below zero.\<close>

fun digits_of :: "nat \<Rightarrow> string" where
  "digits_of n = (if n < 10 then [char_of (48 + n)] else digits_of (n div 10) @ [char_of (48 + n mod 10)])"

declare digits_of.simps [simp del]

definition str_int :: "int \<Rightarrow> string" where
  "str_int i = (if i < 0 then CHR ''-'' # digits_of (nat (- i)) else digits_of (nat i))"

section \<open>Regular expressions of the \<open>re\<close> module\<close>

text \<open>
  The patterns of the repository use literals, \<open>\s\<close>, \<open>\w\<close>, \<open>\d\<close>, character sets,
  concatenation, alternation, \<open>*\<close>, \<open>+\<close>, \<open>?\<close> and \<open>{5}\<close>. They are represented
  as values of \<open>rx\<close>; \<open>rx_match r s\<close> says that the whole of \<open>s\<close> is in the language of
  \<open>r\<close>, computed with derivatives. A literal compiled with \<open>re.I\<close> is \<open>LitI\<close>.
\<close>

datatype cclass = Lit char | LitI char | Space | Word | Digit | OneOf string

datatype rx = Nul | Eps | Atom cclass | Seq rx rx | Alt rx rx | Star rx

fun cmatch :: "cclass \<Rightarrow> char \<Rightarrow> bool" where
  "cmatch (Lit a) c = (c = a)"
| "cmatch (LitI a) c = (lower_char c = lower_char a)"
| "cmatch Space c = isspace c"
| "cmatch Word c = (isalpha c \<or> isdigit c \<or> c = CHR ''_'')"
| "cmatch Digit c = isdigit c"
| "cmatch (OneOf cs) c = (c \<in> set cs)"

fun nullable :: "rx \<Rightarrow> bool" where
  "nullable Nul = False"
| "nullable Eps = True"
| "nullable (Atom _) = False"
| "nullable (Seq r s) = (nullable r \<and> nullable s)"
| "nullable (Alt r s) = (nullable r \<or> nullable s)"
| "nullable (Star _) = True"

fun seq :: "rx \<Rightarrow> rx \<Rightarrow> rx" where
  "seq Nul _ = Nul"
| "seq Eps s = s"
| "seq r s = Seq r s"

fun alt :: "rx \<Rightarrow> rx \<Rightarrow> rx" where
  "alt Nul s = s"
| "alt r Nul = r"
| "alt r s = Alt r s"

fun deriv :: "char \<Rightarrow> rx \<Rightarrow> rx" where
  "deriv c Nul = Nul"
| "deriv c Eps = Nul"
| "deriv c (Atom a) = (if cmatch a c then Eps else Nul)"
| "deriv c (Seq r s) =
     (if nullable r then alt (seq (deriv c r) s) (deriv c s) else seq (deriv c r) s)"
| "deriv c (Alt r s) = alt (deriv c r) (deriv c s)"
| "deriv c (Star r) = seq (deriv c r) (Star r)"

fun rx_match :: "rx \<Rightarrow> string \<Rightarrow> bool" where
  "rx_match r [] = nullable r"
| "rx_match r (c # cs) = rx_match (deriv c r) cs"

definition Plus :: "rx \<Rightarrow> rx" where
  "Plus r = Seq r (Star r)"

definition Opt :: "rx \<Rightarrow> rx" where
  "Opt r = Alt r Eps"

fun Seqs :: "rx list \<Rightarrow> rx" where
  "Seqs [] = Eps"
| "Seqs (r # rs) = Seq r (Seqs rs)"

definition lit :: "string \<Rightarrow> rx" where
  "lit s = Seqs (map (\<lambda>c. Atom (Lit c)) s)"

definition litI :: "string \<Rightarrow> rx" where
  "litI s = Seqs (map (\<lambda>c. Atom (LitI c)) s)"

section \<open>Junk filter (save\_kb\_files.py)\<close>

text \<open>
  \<^verbatim>\<open>JUNK_INTENT_BLANK = re.compile(r'^\s*this page has been left intentionally blank\.?\s*$', re.I)\<close>
  \<^verbatim>\<open>JUNK_PAGE_FOOTER  = re.compile(r'^\s*page\s*\w*\s*\d+\s*(of|/)\s*\w*\s*\d+\s*$', re.I)\<close>

  Both are anchored at the two ends; \<open>$\<close> also matches before one final newline, which
  the trailing \<open>\s*\<close> of both patterns takes already, so a search succeeds exactly when
  the whole string is in the language of the pattern between the anchors.
\<close>

definition JUNK_INTENT_BLANK :: rx where
  "JUNK_INTENT_BLANK =
     Seqs [Star (Atom Space), litI ''this page has been left intentionally blank'',
           Opt (Atom (Lit CHR ''.'')), Star (Atom Space)]"

definition JUNK_PAGE_FOOTER :: rx where
  "JUNK_PAGE_FOOTER =
     Seqs [Star (Atom Space), litI ''page'', Star (Atom Space), Star (Atom Word),
           Star (Atom Space), Plus (Atom Digit), Star (Atom Space),
           Alt (litI ''of'') (Atom (Lit CHR ''/'')),
           Star (Atom Space), Star (Atom Word), Star (Atom Space), Plus (Atom Digit),
           Star (Atom Space)]"

text \<open>
  \<open>looks_junky(text)\<close>; the argument is \<open>None\<close> when the row has no text
  (\<open>(text or "")\<close>). The ratio \<open>digits / max(1, len(t))\<close> is a division of two integers
  compared with one half; it is taken over the reals.
\<close>

definition looks_junky :: "string option \<Rightarrow> bool" where
  "looks_junky text =
     (let t = strip (case text of None \<Rightarrow> [] | Some s \<Rightarrow> s) in
      if t = [] then True
      else if length t < 40 then True
      else if rx_match JUNK_INTENT_BLANK t then True
      else if rx_match JUNK_PAGE_FOOTER t then True
      else (let digits = length (filter isdigit t) in
            if real digits / real (max 1 (length t)) > 1 / 2 then True else False))"

section \<open>Context assembly (query\_hybrid\_rag.py)\<close>

text \<open>
  A search hit carries a score and a payload; the payload is a dictionary from field names
  to strings, or \<open>None\<close> (\<open>hit.payload or {}\<close>). \<open>payload.get(k, "")\<close> is \<open>pget\<close>.
\<close>

record hit =
  score :: real
  payload :: "(string \<rightharpoonup> string) option"

definition payload_or_empty :: "hit \<Rightarrow> (string \<rightharpoonup> string)" where
  "payload_or_empty h = (case payload h of None \<Rightarrow> Map.empty | Some p \<Rightarrow> p)"

definition pget :: "(string \<rightharpoonup> string) \<Rightarrow> string \<Rightarrow> string \<Rightarrow> string" where
  "pget p k d = (case p k of None \<Rightarrow> d | Some v \<Rightarrow> v)"

definition hit_text :: "hit \<Rightarrow> string" where
  "hit_text h = pget (payload_or_empty h) ''text'' []"

text \<open>The citation header and the text of one hit: the body of the \<open>if\<close> in the loop.\<close>

definition format_hit :: "hit \<Rightarrow> string" where
  "format_hit h =
     (let p = payload_or_empty h;
          text = pget p ''text'' [];
          course_code = pget p ''course_code'' [];
          course_name = pget p ''course_name'' [];
          chunk_label = pget p ''chunk_label'' [];
          source_url = pget p ''source_url'' [];
          cite_parts = (if course_code \<noteq> [] then [''Course Code: '' @ course_code] else [])
                     @ (if course_name \<noteq> [] then [''('' @ course_name @ '')''] else [])
                     @ (if chunk_label \<noteq> [] then [''- '' @ chunk_label] else []);
          cite = join '' | '' cite_parts;
          cite' = (if source_url \<noteq> [] then cite @ NL @ ''Source: '' @ source_url else cite)
      in ''['' @ cite' @ '']'' @ NL @ text)"

text \<open>
  One iteration of \<open>for hit in hits\<close>, on the loop state
  \<open>(context_parts, current_length)\<close>. There is no \<open>break\<close>: a hit that does not fit is
  passed over and the loop goes on.
\<close>

definition context_step :: "int \<Rightarrow> string list \<times> nat \<Rightarrow> hit \<Rightarrow> string list \<times> nat" where
  "context_step max_context_length st h =
     (case st of (context_parts, current_length) \<Rightarrow>
        if int (current_length + length (hit_text h)) < max_context_length
        then (context_parts @ [format_hit h], current_length + length (hit_text h))
        else (context_parts, current_length))"

definition build_course_context :: "hit list \<Rightarrow> int \<Rightarrow> string" where
  "build_course_context hits max_context_length =
     join (NL @ NL) (fst (foldl (context_step max_context_length) ([], 0) hits))"

text \<open>
  The hits whose text the loop includes, in the order in which it includes them, when it
  starts with \<open>current_length = cur\<close>.
\<close>

fun included_from :: "int \<Rightarrow> nat \<Rightarrow> hit list \<Rightarrow> hit list" where
  "included_from m cur [] = []"
| "included_from m cur (h # hs) =
     (if int (cur + length (hit_text h)) < m
      then h # included_from m (cur + length (hit_text h)) hs
      else included_from m cur hs)"

definition included_hits :: "hit list \<Rightarrow> int \<Rightarrow> hit list" where
  "included_hits hits m = included_from m 0 hits"

text \<open>
  The reading of the specification: inclusion stops for good at the first hit that does
  not fit, so the included hits are the longest prefix that fits.
\<close>

fun greedy_prefix_from :: "int \<Rightarrow> nat \<Rightarrow> hit list \<Rightarrow> hit list" where
  "greedy_prefix_from m cur [] = []"
| "greedy_prefix_from m cur (h # hs) =
     (if int (cur + length (hit_text h)) < m
      then h # greedy_prefix_from m (cur + length (hit_text h)) hs
      else [])"

definition total_text_length :: "hit list \<Rightarrow> nat" where
  "total_text_length hs = sum_list (map (\<lambda>h. length (hit_text h)) hs)"

definition mk_hit :: "string \<Rightarrow> hit" where
  "mk_hit t = \<lparr>score = 1, payload = Some [''text'' \<mapsto> t]\<rparr>"

definition budget_example :: "hit list" where
  "budget_example = [mk_hit ''aaa'', mk_hit ''bbbbbbbbbb'', mk_hit ''cc'']"

section \<open>Course records and chunks (ingest\_courses.py)\<close>

text \<open>
  A course record is the JSON object written by the structuring step of the repository.
  Its values are scalars, lists of scalars, lists of \<open>{number, text}\<close> objects, or
  objects. A key that is absent is \<open>None\<close> in the model. The typed fields below are
  the ones the chunker reads with an operation of one type (\<open>.strip()\<close>,
  \<open>", ".join\<close>): strings, lists of strings, lists of objects.
\<close>

datatype scalar = SNone | SBool bool | SInt int | SStr string

record outcome =
  o_number :: "scalar option"
  o_text :: "scalar option"

datatype fval =
    VScalar scalar
  | VList "scalar list"
  | VRecs "outcome list"
  | VDict "(string \<times> scalar) list"

record course_data =
  cd_course_code :: "string option"
  cd_course_name :: "string option"
  cd_source_url :: "string option"
  cd_credit_points :: "scalar option"
  cd_cricos_code :: "scalar option"
  cd_faculty :: "string list option"
  cd_study_level :: "scalar option"
  cd_duration_fulltime :: "scalar option"
  cd_duration_parttime :: "scalar option"
  cd_location :: "string list option"
  cd_awards :: "string list option"
  cd_learning_outcomes :: "outcome list option"
  cd_fields :: "string \<rightharpoonup> fval"

record chunk_meta =
  m_course_code :: string
  m_course_name :: string
  m_chunk_type :: string
  m_chunk_label :: string
  m_source_url :: string
  m_ingested_at :: string

record chunk =
  cid :: string
  ctext :: string
  cmeta :: chunk_meta

text \<open>
  Library functions the chunker calls and the model does not spell out: \<open>uuid.uuid5\<close>
  in the URL namespace (a hash of the key string), \<open>json.dumps\<close> of an object, and
  \<open>str\<close> of a list or an object.
\<close>

record pylib =
  uuid5_url :: "string \<Rightarrow> string"
  json_dumps :: "(string \<times> scalar) list \<Rightarrow> string"
  repr_fval :: "fval \<Rightarrow> string"

text \<open>\<open>str(v)\<close> and the truth value of \<open>v\<close>.\<close>

fun py_str :: "scalar \<Rightarrow> string" where
  "py_str SNone = ''None''"
| "py_str (SBool b) = (if b then ''True'' else ''False'')"
| "py_str (SInt i) = str_int i"
| "py_str (SStr s) = s"

fun truthy :: "scalar \<Rightarrow> bool" where
  "truthy SNone = False"
| "truthy (SBool b) = b"
| "truthy (SInt i) = (i \<noteq> 0)"
| "truthy (SStr s) = (s \<noteq> [])"

fun truthy_fval :: "fval \<Rightarrow> bool" where
  "truthy_fval (VScalar s) = truthy s"
| "truthy_fval (VList xs) = (xs \<noteq> [])"
| "truthy_fval (VRecs rs) = (rs \<noteq> [])"
| "truthy_fval (VDict d) = (d \<noteq> [])"

definition truthy_opt :: "scalar option \<Rightarrow> bool" where
  "truthy_opt v = (case v of None \<Rightarrow> False | Some s \<Rightarrow> truthy s)"

definition str_opt :: "scalar option \<Rightarrow> string" where
  "str_opt v = (case v of None \<Rightarrow> ''None'' | Some s \<Rightarrow> py_str s)"

definition str_fval :: "pylib \<Rightarrow> fval \<Rightarrow> string" where
  "str_fval lib v = (case v of VScalar s \<Rightarrow> py_str s | _ \<Rightarrow> repr_fval lib v)"

subsection \<open>Paths and patterns\<close>

text \<open>\<open>s.split(c)\<close> for a one-character separator.\<close>

fun split_on :: "char \<Rightarrow> string \<Rightarrow> string list" where
  "split_on c [] = [[]]"
| "split_on c (x # xs) =
     (if x = c then [] # split_on c xs
      else (case split_on c xs of [] \<Rightarrow> [[x]] | p # ps \<Rightarrow> (x # p) # ps))"

text \<open>
  \<open>Path(filename).name\<close> and \<open>Path(filename).stem\<close> for POSIX paths: the path is cut at
  \<open>/\<close>, empty and \<open>.\<close> components are dropped, the name is the last component; the
  stem is the name up to its last dot, when that dot is neither the first nor the last
  character of the name.
\<close>

definition path_name :: "string \<Rightarrow> string" where
  "path_name p =
     (case rev (filter (\<lambda>q. q \<noteq> [] \<and> q \<noteq> ''.'') (split_on CHR ''/'' p)) of
        [] \<Rightarrow> [] | q # _ \<Rightarrow> q)"

definition rfind_dot :: "string \<Rightarrow> nat option" where
  "rfind_dot s =
     (let r = dropWhile (\<lambda>c. c \<noteq> CHR ''.'') (rev s) in
      if r = [] then None else Some (length r - 1))"

definition path_stem :: "string \<Rightarrow> string" where
  "path_stem p =
     (let name = path_name p in
      case rfind_dot name of
        None \<Rightarrow> name
      | Some i \<Rightarrow> if 0 < i \<and> i < length name - 1 then take i name else name)"

text \<open>
  \<^verbatim>\<open>re.match(r'^[C]\d{5}$', s, re.IGNORECASE)\<close>: the letter C in either case and five
  digits; \<open>$\<close> also matches before one final newline.
\<close>

definition COURSE_CODE_RX :: rx where
  "COURSE_CODE_RX =
     Seqs [Atom (LitI CHR ''C''), Atom Digit, Atom Digit, Atom Digit, Atom Digit, Atom Digit]"

definition match_course_code :: "string \<Rightarrow> bool" where
  "match_course_code s \<longleftrightarrow>
     rx_match COURSE_CODE_RX s
     \<or> (s \<noteq> [] \<and> last s = CHR 0x0A \<and> rx_match COURSE_CODE_RX (butlast s))"

text \<open>
  \<^verbatim>\<open>re.search(r'/courses/([cC]\d{5})', url)\<close>: the leftmost place where the fifteen
  characters of the pattern are found; the result is group 1.
\<close>

definition COURSE_URL_RX :: rx where
  "COURSE_URL_RX =
     Seqs [lit ''/courses/'', Atom (OneOf ''cC''),
           Atom Digit, Atom Digit, Atom Digit, Atom Digit, Atom Digit]"

fun search_course_url :: "string \<Rightarrow> string option" where
  "search_course_url [] = None"
| "search_course_url (c # cs) =
     (if rx_match COURSE_URL_RX (take 15 (c # cs)) then Some (take 6 (drop 9 (c # cs)))
      else search_course_url cs)"

text \<open>\<^verbatim>\<open>re.search(r'([C]\d{5})', filename)\<close>: a capital C and five digits.\<close>

definition COURSE_FILE_RX :: rx where
  "COURSE_FILE_RX =
     Seqs [Atom (Lit CHR ''C''), Atom Digit, Atom Digit, Atom Digit, Atom Digit, Atom Digit]"

fun search_course_file :: "string \<Rightarrow> string option" where
  "search_course_file [] = None"
| "search_course_file (c # cs) =
     (if rx_match COURSE_FILE_RX (take 6 (c # cs)) then Some (take 6 (c # cs))
      else search_course_file cs)"

definition extract_course_code_from_filename :: "string \<Rightarrow> string option" where
  "extract_course_code_from_filename filename = search_course_file filename"

definition extract_course_code_from_url :: "string \<Rightarrow> string option" where
  "extract_course_code_from_url url =
     (if url = [] then None
      else (case search_course_url url of None \<Rightarrow> None | Some g \<Rightarrow> Some (upper g)))"

definition get_course_code :: "course_data \<Rightarrow> string \<Rightarrow> string" where
  "get_course_code course_data filename =
     (let code = strip (case cd_course_code course_data of None \<Rightarrow> [] | Some c \<Rightarrow> c) in
      if code \<noteq> [] \<and> match_course_code code then upper code
      else
        let source_url = (case cd_source_url course_data of None \<Rightarrow> [] | Some u \<Rightarrow> u) in
        case extract_course_code_from_url source_url of
          Some code \<Rightarrow> code
        | None \<Rightarrow>
           (case extract_course_code_from_url filename of
              Some code \<Rightarrow> code
            | None \<Rightarrow>
                upper (strip (case cd_course_code course_data of
                                None \<Rightarrow> ''UNKNOWN'' | Some c \<Rightarrow> c))))"

subsection \<open>Chunk identity\<close>

definition chunk_key :: "string \<Rightarrow> string \<Rightarrow> nat \<Rightarrow> string \<Rightarrow> string" where
  "chunk_key course_code chunk_type chunk_index unique_id =
     ''course|'' @ course_code @ ''|type:'' @ chunk_type @ ''|chunk:''
       @ str_int (int chunk_index) @ ''|unique:'' @ unique_id"

definition make_chunk_uuid :: "pylib \<Rightarrow> string \<Rightarrow> string \<Rightarrow> nat \<Rightarrow> string \<Rightarrow> string" where
  "make_chunk_uuid lib course_code chunk_type chunk_index unique_id =
     uuid5_url lib (chunk_key course_code chunk_type chunk_index unique_id)"

subsection \<open>Field formatting\<close>

definition format_outcomes :: "outcome list \<Rightarrow> string" where
  "format_outcomes items =
     join NL (map (\<lambda>item. (case o_number item of None \<Rightarrow> [] | Some n \<Rightarrow> py_str n) @ ''. ''
                           @ (case o_text item of None \<Rightarrow> [] | Some t \<Rightarrow> py_str t))
                  (filter (\<lambda>item. truthy_opt (o_text item)) items))"

fun format_field_value :: "pylib \<Rightarrow> fval option \<Rightarrow> string" where
  "format_field_value lib None = []"
| "format_field_value lib (Some (VScalar SNone)) = []"
| "format_field_value lib (Some (VList xs)) = join '', '' (map py_str (filter truthy xs))"
| "format_field_value lib (Some (VRecs items)) = format_outcomes items"
| "format_field_value lib (Some (VDict d)) = json_dumps lib d"
| "format_field_value lib (Some (VScalar s)) = py_str s"


subsection \<open>The field chunker\<close>

definition chunkable_fields :: "(string \<times> string) list" where
  "chunkable_fields =
     [(''overview'', ''Overview''),
      (''admission_requirements'', ''Admission Requirements''),
      (''career_options'', ''Career Options''),
      (''course_structure'', ''Course Structure''),
      (''professional_recognition'', ''Professional Recognition''),
      (''inherent_requirements'', ''Inherent Requirements''),
      (''structure_notes'', ''Structure Notes''),
      (''notes'', ''Notes'')]"

text \<open>
  The first test of the loop:
  \<^verbatim>\<open>not value or value == "None" or (isinstance(value, str) and value.strip() == "")\<close>.
\<close>

definition skip_value :: "fval option \<Rightarrow> bool" where
  "skip_value value =
     (case value of
        None \<Rightarrow> True
      | Some v \<Rightarrow> \<not> truthy_fval v \<or> v = VScalar (SStr ''None'')
                 \<or> (case v of VScalar (SStr s) \<Rightarrow> strip s = [] | _ \<Rightarrow> False))"

text \<open>
  The values the chunks of one record share: the library, the resolved course code, the
  course name, the source URL, the time stamp and the unique id.
\<close>

record chunk_env =
  e_lib :: pylib
  e_course_code :: string
  e_course_name :: string
  e_source_url :: string
  e_ingested_at :: string
  e_unique_id :: string

definition emit_chunk :: "chunk_env \<Rightarrow> string \<Rightarrow> string \<Rightarrow> nat \<Rightarrow> string \<Rightarrow> chunk" where
  "emit_chunk env chunk_type chunk_label chunk_index text =
     \<lparr>cid = make_chunk_uuid (e_lib env) (e_course_code env) chunk_type chunk_index
              (e_unique_id env),
      ctext = text,
      cmeta = \<lparr>m_course_code = e_course_code env, m_course_name = e_course_name env,
               m_chunk_type = chunk_type, m_chunk_label = chunk_label,
               m_source_url = e_source_url env, m_ingested_at = e_ingested_at env\<rparr>\<rparr>"

text \<open>One iteration of the loop over the chunkable fields, on \<open>(chunks, chunk_index)\<close>.\<close>

definition field_step ::
  "chunk_env \<Rightarrow> course_data \<Rightarrow> chunk list \<times> nat \<Rightarrow> string \<times> string \<Rightarrow> chunk list \<times> nat" where
  "field_step env course_data st fl =
     (case st of (chunks, chunk_index) \<Rightarrow>
      case fl of (field, label) \<Rightarrow>
        let value = cd_fields course_data field in
        if skip_value value then (chunks, chunk_index)
        else
          let text = format_field_value (e_lib env) value in
          if text = [] \<or> length (strip text) < 50 then (chunks, chunk_index)
          else (chunks @ [emit_chunk env field label chunk_index (label @ '':'' @ NL @ text)],
                chunk_index + 1))"

definition outcomes_step ::
  "chunk_env \<Rightarrow> course_data \<Rightarrow> chunk list \<times> nat \<Rightarrow> chunk list \<times> nat" where
  "outcomes_step env course_data st =
     (case st of (chunks, chunk_index) \<Rightarrow>
      let learning_outcomes =
            (case cd_learning_outcomes course_data of None \<Rightarrow> [] | Some l \<Rightarrow> l) in
      if learning_outcomes \<noteq> [] then
        let outcomes_text = format_outcomes learning_outcomes in
        if outcomes_text \<noteq> [] then
          (chunks @ [emit_chunk env ''learning_outcomes'' ''Learning Outcomes'' chunk_index
                       (''Learning Outcomes:'' @ NL @ outcomes_text)],
           chunk_index + 1)
        else (chunks, chunk_index)
      else (chunks, chunk_index))"

definition scalar_part :: "string \<Rightarrow> scalar option \<Rightarrow> string list" where
  "scalar_part label v = (if truthy_opt v then [label @ str_opt v] else [])"

definition list_part :: "string \<Rightarrow> string list option \<Rightarrow> string list" where
  "list_part label v =
     (case v of
        None \<Rightarrow> []
      | Some l \<Rightarrow> if l \<noteq> [] then (let s = join '', '' l in if s \<noteq> [] then [label @ s] else [])
                  else [])"

definition course_info_parts :: "chunk_env \<Rightarrow> course_data \<Rightarrow> string list" where
  "course_info_parts env course_data =
     (if e_course_name env \<noteq> [] then [''Course Name: '' @ e_course_name env] else [])
   @ (if e_course_code env \<noteq> [] then [''Course Code: '' @ e_course_code env] else [])
   @ scalar_part ''Credit Points: '' (cd_credit_points course_data)
   @ (if truthy_opt (cd_cricos_code course_data)
          \<and> cd_cricos_code course_data \<noteq> Some (SStr ''None'')
      then [''CRICOS Code: '' @ str_opt (cd_cricos_code course_data)] else [])
   @ list_part ''Faculty: '' (cd_faculty course_data)
   @ scalar_part ''Study Level: '' (cd_study_level course_data)
   @ scalar_part ''Duration (Full-time): '' (cd_duration_fulltime course_data)
   @ scalar_part ''Duration (Part-time): '' (cd_duration_parttime course_data)
   @ list_part ''Location: '' (cd_location course_data)
   @ list_part ''Awards: '' (cd_awards course_data)
   @ (case cd_fields course_data ''overview'' of
        None \<Rightarrow> []
      | Some v \<Rightarrow> if truthy_fval v
                  then [NL @ ''Overview:'' @ NL @ str_fval (e_lib env) v] else [])"

definition info_step ::
  "chunk_env \<Rightarrow> course_data \<Rightarrow> chunk list \<times> nat \<Rightarrow> chunk list \<times> nat" where
  "info_step env course_data st =
     (case st of (chunks, chunk_index) \<Rightarrow>
      let course_info_parts = course_info_parts env course_data in
      if course_info_parts \<noteq> [] then
        (chunks @ [emit_chunk env ''course_info'' ''Course Information'' chunk_index
                     (join NL course_info_parts)],
         chunk_index + 1)
      else (chunks, chunk_index))"

text \<open>
  The course name, with the repair from the file name when the record has none or has
  the placeholder.
\<close>

definition resolve_course_name :: "course_data \<Rightarrow> string \<Rightarrow> string" where
  "resolve_course_name course_data filename =
     (let course_name = strip (case cd_course_name course_data of None \<Rightarrow> [] | Some n \<Rightarrow> n) in
      if course_name = [] \<or> course_name = ''TEQSA Category: Australian University'' then
        let filename_parts = split_on CHR ''_'' (path_stem filename);
            name_parts = filter (\<lambda>p. p \<noteq> ''None'' \<and> p \<noteq> [] \<and> \<not> match_course_code p)
                           filename_parts
        in if name_parts \<noteq> []
           then map (\<lambda>c. if c = CHR ''_'' then CHR '' '' else c) (join '' '' name_parts)
           else course_name
      else course_name)"

definition chunk_env_of :: "pylib \<Rightarrow> string \<Rightarrow> course_data \<Rightarrow> string \<Rightarrow> chunk_env" where
  "chunk_env_of lib now course_data filename =
     \<lparr>e_lib = lib,
      e_course_code = get_course_code course_data filename,
      e_course_name = resolve_course_name course_data filename,
      e_source_url = (case cd_source_url course_data of None \<Rightarrow> [] | Some u \<Rightarrow> u),
      e_ingested_at = now,
      e_unique_id = path_stem filename\<rparr>"

text \<open>
  \<open>create_chunks_from_course(course_data, filename)\<close>. The clock read by
  \<open>datetime.utcnow()\<close> is the argument \<open>now\<close>.
\<close>

definition create_chunks_from_course ::
  "pylib \<Rightarrow> string \<Rightarrow> course_data \<Rightarrow> string \<Rightarrow> chunk list" where
  "create_chunks_from_course lib now course_data filename =
     (let env = chunk_env_of lib now course_data filename;
          st1 = foldl (field_step env course_data) ([], 0) chunkable_fields;
          st2 = outcomes_step env course_data st1;
          st3 = info_step env course_data st2
      in fst st3)"

text \<open>Sample inputs: a record with no key at all, and a library whose hash is the identity.\<close>

definition empty_course :: course_data where
  "empty_course =
     \<lparr>cd_course_code = None, cd_course_name = None, cd_source_url = None,
      cd_credit_points = None, cd_cricos_code = None, cd_faculty = None,
      cd_study_level = None, cd_duration_fulltime = None, cd_duration_parttime = None,
      cd_location = None, cd_awards = None, cd_learning_outcomes = None,
      cd_fields = Map.empty\<rparr>"


text \<open>
  The chunks of the field loop from index \<open>i\<close> on, and the chunk types and keys of a
  chunk list, used to state what the loop produces.
\<close>

definition field_emits :: "pylib \<Rightarrow> course_data \<Rightarrow> string \<Rightarrow> bool" where
  "field_emits lib course_data field \<longleftrightarrow>
     \<not> skip_value (cd_fields course_data field)
     \<and> 50 \<le> length (strip (format_field_value lib (cd_fields course_data field)))"

fun field_chunks :: "chunk_env \<Rightarrow> course_data \<Rightarrow> nat \<Rightarrow> (string \<times> string) list \<Rightarrow> chunk list" where
  "field_chunks env course_data i [] = []"
| "field_chunks env course_data i ((field, label) # fs) =
     (if field_emits (e_lib env) course_data field
      then emit_chunk env field label i
             (label @ '':'' @ NL @ format_field_value (e_lib env) (cd_fields course_data field))
           # field_chunks env course_data (Suc i) fs
      else field_chunks env course_data i fs)"


definition chunk_keys :: "string \<Rightarrow> string \<Rightarrow> chunk list \<Rightarrow> string list" where
  "chunk_keys course_code unique_id cs =
     map (\<lambda>(i, c). chunk_key course_code (m_chunk_type (cmeta c)) i unique_id)
         (enumerate 0 cs)"

definition outcome_chunks :: "chunk_env \<Rightarrow> course_data \<Rightarrow> nat \<Rightarrow> chunk list" where
  "outcome_chunks env course_data i = fst (outcomes_step env course_data ([], i))"

definition info_chunks :: "chunk_env \<Rightarrow> course_data \<Rightarrow> nat \<Rightarrow> chunk list" where
  "info_chunks env course_data i = fst (info_step env course_data ([], i))"

definition forget_time :: "chunk \<Rightarrow> chunk" where
  "forget_time c = c\<lparr>cmeta := (cmeta c)\<lparr>m_ingested_at := []\<rparr>\<rparr>"

definition id_of :: "chunk_env \<Rightarrow> nat \<times> chunk \<Rightarrow> string" where
  "id_of env =
     (\<lambda>(j, c). make_chunk_uuid (e_lib env) (e_course_code env) (m_chunk_type (cmeta c)) j
                 (e_unique_id env))"


definition text50 :: string where
  "text50 = ''This course has just fifty characters of overview.''"




definition same_stem_a :: string where
  "same_stem_a = ''C10302.json''"

definition same_stem_b :: string where
  "same_stem_b = ''C10302.txt''"

section \<open>Embedding index writer (save\_kb\_files.py)\<close>

text \<open>
  A line of the chunk file is blank (\<open>None\<close>) or a JSON object with the keys \<open>id\<close>,
  \<open>text\<close> and \<open>meta\<close>. \<open>r.get("id")\<close> is a scalar, \<open>SNone\<close> when the key is absent or
  null; \<open>text\<close> and \<open>meta\<close> are \<open>None\<close> when absent or null. The lines are taken as
  parsed: a line that is not JSON is outside the model.
\<close>

record kb_row =
  row_id :: scalar
  row_text :: "string option"
  row_meta :: "(string \<rightharpoonup> scalar) option"

text \<open>
  Python compares and hashes \<open>True\<close> as \<open>1\<close> and \<open>False\<close> as \<open>0\<close>; \<open>py_key\<close> is the
  value as a member of a \<open>set\<close>.
\<close>

fun py_key :: "scalar \<Rightarrow> scalar" where
  "py_key (SBool b) = SInt (if b then 1 else 0)"
| "py_key v = v"

text \<open>One iteration of \<open>load_jsonl\<close>: the row it yields, if any.\<close>

definition load_row :: "kb_row \<Rightarrow> kb_row option" where
  "load_row rec =
     (if looks_junky (row_text rec) then None
      else
        let meta = (case row_meta rec of None \<Rightarrow> Map.empty | Some m \<Rightarrow> m);
            meta' = (if ''page_end'' \<in> dom meta then meta
                     else meta(''page_end'' \<mapsto>
                            (case meta ''page_start'' of None \<Rightarrow> SNone | Some v \<Rightarrow> v)))
        in Some (rec\<lparr>row_meta := Some meta'\<rparr>))"

definition load_jsonl :: "kb_row option list \<Rightarrow> kb_row list" where
  "load_jsonl lines = List.map_filter (\<lambda>line. case line of None \<Rightarrow> None | Some rec \<Rightarrow> load_row rec) lines"

text \<open>
  The embedding matrix returned by \<open>model.encode\<close>: its rows and \<open>shape[1]\<close>. The three
  output files and the output directory are the state of \<open>main\<close>.
\<close>

record 'v matrix =
  mat_rows :: "'v list"
  mat_dim :: nat

record manifest =
  created_at :: string
  n_points :: nat
  dim :: nat
  embed_model :: string
  source_jsonl :: string

record 'v out_files =
  out_dir_made :: bool
  embeddings_npy :: "'v matrix option"
  payloads_jsonl :: "kb_row list option"
  manifest_json :: "manifest option"

record writer_args =
  a_jsonl :: string
  a_embed_model_dir :: string
  a_out_dir :: string

record 'v writer_env =
  w_encode :: "string list \<Rightarrow> 'v matrix"
  w_now :: string
  w_abspath :: "string \<Rightarrow> string"

datatype exit = ExitOk | SystemExit string | Raised string

text \<open>\<open>[r["text"] for r in rows]\<close>, for rows that have a text.\<close>

definition kb_texts :: "kb_row list \<Rightarrow> string list" where
  "kb_texts rows = map (\<lambda>r. case row_text r of None \<Rightarrow> [] | Some t \<Rightarrow> t) rows"

definition main_save_kb ::
  "'v writer_env \<Rightarrow> writer_args \<Rightarrow> kb_row option list \<Rightarrow> 'v out_files \<Rightarrow> exit \<times> 'v out_files" where
  "main_save_kb env args lines fs =
     (let fs1 = fs\<lparr>out_dir_made := True\<rparr>;
          rows = load_jsonl lines in
      if rows = [] then
        (SystemExit ''No rows after filtering; check your chunks.jsonl or filters.'', fs1)
      else
        let ids = map row_id rows in
        if SNone \<in> set ids then
          (SystemExit ''Some rows are missing 'id'. Did ingest write UUIDs?'', fs1)
        else if card (set (map py_key ids)) \<noteq> length ids then
          (SystemExit ''Duplicate ids detected in JSONL. UUIDv5 should be unique per chunk.'', fs1)
        else if None \<in> set (map row_text rows) then (Raised ''KeyError'', fs1)
        else
          let texts = kb_texts rows;
              vecs = w_encode env texts in
          if length (mat_rows vecs) \<noteq> length rows then
            (SystemExit (''Embeddings rows '' @ str_int (int (length (mat_rows vecs)))
                          @ '' != payload rows '' @ str_int (int (length rows))), fs1)
          else
            (ExitOk,
             fs1\<lparr>embeddings_npy := Some vecs,
                 payloads_jsonl := Some rows,
                 manifest_json := Some \<lparr>created_at = w_now env,
                                        n_points = length (mat_rows vecs),
                                        dim = mat_dim vecs,
                                        embed_model = a_embed_model_dir args,
                                        source_jsonl = w_abspath env (a_jsonl args)\<rparr>\<rparr>))"

section \<open>Index upsert (upsert\_to\_qdrant\_from\_files.py)\<close>

text \<open>
  \<open>load_payloads\<close>: the loop over the enumerated lines, on \<open>(ids, payloads)\<close>. A row
  whose id is a string gets its line number as point id.
\<close>

definition payload_of :: "kb_row \<Rightarrow> (string \<rightharpoonup> scalar)" where
  "payload_of r =
     (case row_meta r of None \<Rightarrow> Map.empty | Some m \<Rightarrow> m)
       (''text'' \<mapsto> SStr (case row_text r of None \<Rightarrow> [] | Some t \<Rightarrow> t),
        ''row_id'' \<mapsto> row_id r)"

fun load_payloads_loop ::
  "(nat \<times> kb_row option) list \<Rightarrow> scalar list \<times> (string \<rightharpoonup> scalar) list
     \<Rightarrow> exit + (scalar list \<times> (string \<rightharpoonup> scalar) list)" where
  "load_payloads_loop [] st = Inr st"
| "load_payloads_loop ((i, None) # rest) st = load_payloads_loop rest st"
| "load_payloads_loop ((i, Some r) # rest) (ids, payloads) =
     (let rid = row_id r in
      if \<not> truthy rid then Inl (SystemExit ''Row missing 'id' in payloads.jsonl'')
      else
        let qdrant_id = (case rid of SStr _ \<Rightarrow> SInt (int i) | _ \<Rightarrow> rid) in
        load_payloads_loop rest (ids @ [qdrant_id], payloads @ [payload_of r]))"

definition load_payloads ::
  "kb_row option list \<Rightarrow> exit + (scalar list \<times> (string \<rightharpoonup> scalar) list)" where
  "load_payloads lines =
     (case load_payloads_loop (enumerate 0 lines) ([], []) of
        Inl e \<Rightarrow> Inl e
      | Inr (ids, payloads) \<Rightarrow>
          if card (set (map py_key ids)) \<noteq> length ids
          then Inl (SystemExit ''Duplicate ids found in payloads.jsonl'')
          else Inr (ids, payloads))"

text \<open>
  The vector store: collections by name, each with its dimension and its points by id.
  Errors of the server and of the network are outside the model.
\<close>

record 'v collection =
  col_dim :: nat
  col_points :: "scalar \<rightharpoonup> ('v \<times> (string \<rightharpoonup> scalar))"

type_synonym 'v qdrant = "string \<rightharpoonup> 'v collection"

definition upsert_points ::
  "string \<Rightarrow> (scalar \<times> 'v \<times> (string \<rightharpoonup> scalar)) list \<Rightarrow> 'v qdrant \<Rightarrow> 'v qdrant" where
  "upsert_points name pts db =
     (case db name of
        None \<Rightarrow> db
      | Some col \<Rightarrow>
          db(name \<mapsto> col\<lparr>col_points :=
                foldl (\<lambda>m (k, v, p). m(py_key k \<mapsto> (v, p))) (col_points col) pts\<rparr>))"

text \<open>\<open>for i in range(0, len(ids), B)\<close> with \<open>B > 0\<close>, from \<open>i\<close> on.\<close>

function upsert_batches ::
  "string \<Rightarrow> nat \<Rightarrow> nat \<Rightarrow> (scalar \<times> 'v \<times> (string \<rightharpoonup> scalar)) list \<Rightarrow> 'v qdrant \<Rightarrow> 'v qdrant" where
  "upsert_batches name B i pts db =
     (if 0 < B \<and> i < length pts
      then upsert_batches name B (i + B) pts (upsert_points name (take B (drop i pts)) db)
      else db)"
  by pat_completeness auto
termination
  by (relation "measure (\<lambda>(name, B, i, pts, db). length pts - i)") auto

declare upsert_batches.simps [simp del]

record upsert_args =
  u_collection :: string
  u_batch :: int
  u_no_recreate :: bool

definition main_upsert ::
  "upsert_args \<Rightarrow> 'v matrix \<Rightarrow> kb_row option list \<Rightarrow> 'v qdrant \<Rightarrow> exit \<times> 'v qdrant" where
  "main_upsert args vecs lines db =
     (case load_payloads lines of
        Inl e \<Rightarrow> (e, db)
      | Inr (ids, payloads) \<Rightarrow>
          if length (mat_rows vecs) \<noteq> length ids then
            (SystemExit (''Emb rows '' @ str_int (int (length (mat_rows vecs)))
                          @ '' != payload rows '' @ str_int (int (length ids))), db)
          else
            let name = u_collection args;
                fresh = \<lparr>col_dim = mat_dim vecs, col_points = Map.empty\<rparr>;
                db1 = (if u_no_recreate args
                       then (if name \<in> dom db then db else db(name \<mapsto> fresh))
                       else db(name \<mapsto> fresh));
                pts = zip ids (zip (mat_rows vecs) payloads)
            in if u_batch args = 0 then (Raised ''ValueError'', db1)
               else if u_batch args < 0 then (ExitOk, db1)
               else (ExitOk, upsert_batches name (nat (u_batch args)) 0 pts db1))"

text \<open>Sample inputs of the two command line tools.\<close>

definition sample_row :: "string \<Rightarrow> string \<Rightarrow> kb_row" where
  "sample_row i t = \<lparr>row_id = SStr i, row_text = Some t, row_meta = None\<rparr>"

definition length_encoder :: "nat writer_env" where
  "length_encoder =
     \<lparr>w_encode = (\<lambda>texts. \<lparr>mat_rows = map length texts, mat_dim = 1\<rparr>),
      w_now = ''2025-11-10T00:00:00Z'', w_abspath = (\<lambda>p. p)\<rparr>"

definition no_files :: "nat out_files" where
  "no_files = \<lparr>out_dir_made = False, embeddings_npy = None, payloads_jsonl = None,
                manifest_json = None\<rparr>"

definition sample_args :: writer_args where
  "sample_args = \<lparr>a_jsonl = ''chunks.jsonl'', a_embed_model_dir = ''qwen3'', a_out_dir = ''out''\<rparr>"

definition written_files :: "'v out_files \<Rightarrow> 'v matrix option \<times> kb_row list option \<times> manifest option" where
  "written_files fs = (embeddings_npy fs, payloads_jsonl fs, manifest_json fs)"

definition dup_lines :: "kb_row option list" where
  "dup_lines = [Some (sample_row ''a'' ''first''), Some (sample_row ''a'' ''second'')]"

definition dup_vecs :: "nat matrix" where
  "dup_vecs = \<lparr>mat_rows = [1, 2], mat_dim = 1\<rparr>"

definition dup_args :: upsert_args where
  "dup_args = \<lparr>u_collection = ''courses'', u_batch = 64, u_no_recreate = False\<rparr>"

text \<open>The payload field \<open>row_id\<close> of the point stored under an id, if there is one.\<close>

definition stored_row_id :: "'v qdrant \<Rightarrow> string \<Rightarrow> scalar \<Rightarrow> scalar option" where
  "stored_row_id db name k =
     (case db name of
        None \<Rightarrow> None
      | Some col \<Rightarrow> (case col_points col k of None \<Rightarrow> None | Some (v, p) \<Rightarrow> p ''row_id''))"

text \<open>The numbers of the lines that are not blank, counted from \<open>n\<close>.\<close>

fun nonblank_numbers :: "nat \<Rightarrow> kb_row option list \<Rightarrow> nat list" where
  "nonblank_numbers n [] = []"
| "nonblank_numbers n (None # ls) = nonblank_numbers (Suc n) ls"
| "nonblank_numbers n (Some r # ls) = n # nonblank_numbers (Suc n) ls"

section \<open>Answer generation (query\_hybrid\_rag.py)\<close>

text \<open>
  The exceptions of the query path. All of them are subclasses of \<open>Exception\<close>;
  \<open>KeyboardInterrupt\<close> and \<open>SystemExit\<close> are outside the model. \<open>exc_str\<close> is
  \<open>str(e)\<close>; the wording of the \<open>TypeError\<close> messages is that of CPython 3.11.
\<close>

datatype py_exception =
    ConnectionError string
  | Timeout string
  | HTTPError string
  | JSONDecodeError string
  | KeyError string
  | TypeError string
  | AttributeError string
  | RuntimeError string

definition SQ :: string where
  "SQ = [CHR 0x27]"

fun exc_str :: "py_exception \<Rightarrow> string" where
  "exc_str (ConnectionError m) = m"
| "exc_str (Timeout m) = m"
| "exc_str (HTTPError m) = m"
| "exc_str (JSONDecodeError m) = m"
| "exc_str (KeyError k) = SQ @ k @ SQ"
| "exc_str (TypeError m) = m"
| "exc_str (AttributeError m) = m"
| "exc_str (RuntimeError m) = m"

text \<open>A JSON document as \<open>r.json()\<close> returns it, and \<open>data[key]\<close> for a string key.\<close>

datatype json = JNull | JBool bool | JNum int | JStr string | JArr "json list"
  | JObj "(string \<times> json) list"

fun subscript :: "json \<Rightarrow> string \<Rightarrow> py_exception + json" where
  "subscript (JObj kvs) k = (case map_of kvs k of None \<Rightarrow> Inl (KeyError k) | Some v \<Rightarrow> Inr v)"
| "subscript (JArr _) k = Inl (TypeError ''list indices must be integers or slices, not str'')"
| "subscript (JStr _) k = Inl (TypeError (''string indices must be integers, not '' @ SQ @ ''str'' @ SQ))"
| "subscript JNull k = Inl (TypeError (SQ @ ''NoneType'' @ SQ @ '' object is not subscriptable''))"
| "subscript (JBool _) k = Inl (TypeError (SQ @ ''bool'' @ SQ @ '' object is not subscriptable''))"
| "subscript (JNum _) k = Inl (TypeError (SQ @ ''int'' @ SQ @ '' object is not subscriptable''))"

text \<open>
  The HTTP exchange with the generation service. \<open>requests.post\<close> raises (connection
  error, timeout after 180 seconds) or returns a response; \<open>raise_for_status\<close> raises
  for a status that is not 2xx; \<open>r.json()\<close> raises for a body that is not JSON.
\<close>

record gen_request =
  g_url :: string
  g_model :: string
  g_system_msg :: string
  g_prompt :: string

record response =
  status_error :: "string option"
  body :: "string + json"

definition system_msg_concise :: string where
  "system_msg_concise = ''You are a helpful assistant for UTS course information. Answer questions about courses using only the provided context. Be brief and direct. Cite sources as [Course Code: XXX]. If the information is not in the context, say you don't know.''"

definition system_msg_full :: string where
  "system_msg_full = ''You are a helpful assistant for UTS course information. Answer questions about courses using only the provided context. Provide comprehensive answers. Cite sources as [Course Code: XXX]. If the information is not in the context, say you don't know.''"

definition ollama_request :: "string \<Rightarrow> int \<Rightarrow> string \<Rightarrow> bool \<Rightarrow> string \<Rightarrow> string \<Rightarrow> gen_request" where
  "ollama_request host port model concise query context =
     \<lparr>g_url = ''http://'' @ host @ '':'' @ str_int port @ ''/api/chat'',
      g_model = model,
      g_system_msg = (if concise then system_msg_concise else system_msg_full),
      g_prompt = (if concise
                  then ''Question: '' @ query @ NL @ NL @ ''Context:'' @ NL @ context @ NL @ NL
                         @ ''Answer directly and briefly:''
                  else ''Question: '' @ query @ NL @ NL @ ''Context:'' @ NL @ context @ NL @ NL
                         @ ''Answer:'')\<rparr>"

text \<open>The body of the \<open>try\<close> block, given the outcome of \<open>requests.post\<close>.\<close>

definition read_answer :: "py_exception + response \<Rightarrow> py_exception + json" where
  "read_answer posted =
     (case posted of
        Inl e \<Rightarrow> Inl e
      | Inr r \<Rightarrow>
         (case status_error r of
            Some m \<Rightarrow> Inl (HTTPError m)
          | None \<Rightarrow>
             (case body r of
                Inl m \<Rightarrow> Inl (JSONDecodeError m)
              | Inr data \<Rightarrow>
                 (case subscript data ''message'' of
                    Inl e \<Rightarrow> Inl e
                  | Inr message \<Rightarrow> subscript message ''content''))))"

text \<open>
  \<open>answer_with_ollama(query, context, host, port, model, concise)\<close>; \<open>post\<close> is the
  generation service, which answers the request or fails. The \<open>try\<close> block is
  \<open>read_answer\<close>, and \<open>except Exception as e\<close> turns every exception into a string.
  The result is \<open>Inl\<close> if the function raises.
\<close>

definition answer_with_ollama ::
  "(gen_request \<Rightarrow> py_exception + response) \<Rightarrow> string \<Rightarrow> string \<Rightarrow> string \<Rightarrow> int \<Rightarrow> string
     \<Rightarrow> bool \<Rightarrow> py_exception + json" where
  "answer_with_ollama post query context host port model concise =
     (case read_answer (post (ollama_request host port model concise query context)) of
        Inl e \<Rightarrow> Inr (JStr (''Error generating response: '' @ exc_str e))
      | Inr content \<Rightarrow> Inr content)"

section \<open>Retrieval, quality checks and the two pipelines\<close>

text \<open>
  The world of a chat request: the retrieval service (embedding model and vector search,
  one call) and the generation service. Each call gets the number of earlier calls of
  that service, so a service may fail once and answer later. The trace records the
  calls, in order.
\<close>

record search_request =
  s_query :: string
  s_code_filter :: "string option"
  s_name_filter :: "string option"
  s_limit :: int

datatype event =
    CallFullPipeline
  | CallQueryCourses
  | Search search_request
  | Post gen_request

record world =
  w_search :: "nat \<Rightarrow> search_request \<Rightarrow> py_exception + hit list"
  w_post :: "nat \<Rightarrow> gen_request \<Rightarrow> py_exception + response"

fun is_search :: "event \<Rightarrow> bool" where
  "is_search (Search _) = True"
| "is_search _ = False"

fun is_post :: "event \<Rightarrow> bool" where
  "is_post (Post _) = True"
| "is_post _ = False"

text \<open>
  \<open>retrieve_courses\<close>, as both modules have it: the filter is built from the course
  code, in upper case, and the course name, each when given and not empty.
\<close>

definition truthy_str :: "string option \<Rightarrow> bool" where
  "truthy_str v = (case v of None \<Rightarrow> False | Some s \<Rightarrow> s \<noteq> [])"

definition build_search_request ::
  "string \<Rightarrow> string option \<Rightarrow> string option \<Rightarrow> int \<Rightarrow> search_request" where
  "build_search_request q course_code course_name limit =
     \<lparr>s_query = q,
      s_code_filter = (case course_code of None \<Rightarrow> None
                       | Some c \<Rightarrow> if c \<noteq> [] then Some (upper c) else None),
      s_name_filter = (case course_name of None \<Rightarrow> None
                       | Some n \<Rightarrow> if n \<noteq> [] then Some n else None),
      s_limit = limit\<rparr>"

definition do_search ::
  "world \<Rightarrow> event list \<Rightarrow> search_request \<Rightarrow> (py_exception + hit list) \<times> event list" where
  "do_search w tr req = (w_search w (length (filter is_search tr)) req, tr @ [Search req])"

text \<open>query\_hybrid\_rag.retrieve\_courses: the hits as the search returns them.\<close>

definition retrieve_courses_hybrid ::
  "world \<Rightarrow> event list \<Rightarrow> string \<Rightarrow> string option \<Rightarrow> string option \<Rightarrow> int
     \<Rightarrow> (py_exception + hit list) \<times> event list" where
  "retrieve_courses_hybrid w tr q course_code course_name limit =
     do_search w tr (build_search_request q course_code course_name limit)"

text \<open>
  filtered\_retrieval.retrieve\_courses: the hits sorted by descending score;
  \<open>list.sort\<close> is stable, also with \<open>reverse=True\<close>.
\<close>

definition retrieve_courses_filtered ::
  "world \<Rightarrow> event list \<Rightarrow> string \<Rightarrow> string option \<Rightarrow> string option \<Rightarrow> int
     \<Rightarrow> (py_exception + hit list) \<times> event list" where
  "retrieve_courses_filtered w tr q course_code course_name limit =
     (case do_search w tr (build_search_request q course_code course_name limit) of
        (Inl e, tr') \<Rightarrow> (Inl e, tr')
      | (Inr hits, tr') \<Rightarrow> (Inr (sort_key (\<lambda>h. - score h) hits), tr'))"

record quality =
  has_results :: bool
  min_results :: bool
  has_high_quality :: bool
  diverse_sources :: bool

text \<open>
  \<open>check_result_quality\<close>. With two hits or more it reads \<open>hit.payload.get\<close> of the
  first three hits, which raises for a hit without payload.
\<close>

definition check_result_quality :: "hit list \<Rightarrow> py_exception + quality" where
  "check_result_quality hits =
     (let checks = \<lparr>has_results = 0 < length hits, min_results = 3 \<le> length hits,
                     has_high_quality = False, diverse_sources = False\<rparr> in
      if hits = [] then Inr checks
      else
        let checks1 = checks\<lparr>has_high_quality := 3 / 10 < score (hd hits)\<rparr> in
        if 2 \<le> length hits then
          (if \<exists>h \<in> set (take 3 hits). payload h = None
           then Inl (AttributeError (SQ @ ''NoneType'' @ SQ @ '' object has no attribute ''
                                      @ SQ @ ''get'' @ SQ))
           else
             let sources = set (map (\<lambda>h. pget (payload_or_empty h) ''course_code'' ''unknown'')
                                    (take 3 hits))
             in Inr (checks1\<lparr>diverse_sources := 1 < card sources\<rparr>))
        else Inr checks1)"

text \<open>\<open>query_with_filtering\<close> with \<open>show_details=False\<close>.\<close>

definition query_with_filtering ::
  "world \<Rightarrow> event list \<Rightarrow> string \<Rightarrow> string option \<Rightarrow> string option
     \<Rightarrow> (py_exception + hit list) \<times> event list" where
  "query_with_filtering w tr q course_code course_name =
     (case retrieve_courses_filtered w tr q course_code course_name 30 of
        (Inl e, tr') \<Rightarrow> (Inl e, tr')
      | (Inr hits, tr') \<Rightarrow>
         (case check_result_quality hits of
            Inl e \<Rightarrow> (Inl e, tr')
          | Inr quality \<Rightarrow> if \<not> has_results quality then (Inr [], tr') else (Inr hits, tr')))"

definition do_answer ::
  "world \<Rightarrow> event list \<Rightarrow> string \<Rightarrow> string \<Rightarrow> string \<Rightarrow> bool \<Rightarrow> (py_exception + json) \<times> event list" where
  "do_answer w tr query context model concise =
     (answer_with_ollama (w_post w (length (filter is_post tr))) query context
        ''127.0.0.1'' 11434 model concise,
      tr @ [Post (ollama_request ''127.0.0.1'' 11434 model concise query context)])"

text \<open>
  \<open>query_with_full_pipeline\<close> with \<open>generate=True\<close>: the primary path. The printing
  of the results is left out.
\<close>

definition query_with_full_pipeline ::
  "world \<Rightarrow> event list \<Rightarrow> string \<Rightarrow> string option \<Rightarrow> string option \<Rightarrow> string \<Rightarrow> bool
     \<Rightarrow> (py_exception + json) \<times> event list" where
  "query_with_full_pipeline w tr0 query course_code course_name model concise =
     (let tr = tr0 @ [CallFullPipeline] in
      case query_with_filtering w tr query course_code course_name of
        (Inl e, tr') \<Rightarrow> (Inl e, tr')
      | (Inr hits, tr') \<Rightarrow>
         (case check_result_quality hits of
            Inl e \<Rightarrow> (Inl e, tr')
          | Inr quality \<Rightarrow>
              if \<not> has_results quality
              then (Inr (JStr ''No relevant course information found.''), tr')
              else do_answer w tr' query (build_course_context hits 4000) model concise))"

text \<open>
  \<open>query_courses\<close> with \<open>generate=True\<close>: the path the server falls back to. It
  generates with the default model of the function.
\<close>

definition query_courses ::
  "world \<Rightarrow> event list \<Rightarrow> string \<Rightarrow> string option \<Rightarrow> string option \<Rightarrow> int \<Rightarrow> bool
     \<Rightarrow> (py_exception + json) \<times> event list" where
  "query_courses w tr0 query course_code course_name k concise =
     (let tr = tr0 @ [CallQueryCourses] in
      case retrieve_courses_hybrid w tr query course_code course_name k of
        (Inl e, tr') \<Rightarrow> (Inl e, tr')
      | (Inr hits, tr') \<Rightarrow>
          if hits = [] then (Inr (JStr ''No relevant course information found.''), tr')
          else do_answer w tr' query (build_course_context hits 4000) ''qwen2.5:7b'' concise)"

section \<open>The chat endpoint (api\_server.py)\<close>

text \<open>
  \<^verbatim>\<open>re.findall(r'\b[Cc]\d{5}\b', text)\<close>, first match: the leftmost place where the six
  characters stand between two word boundaries. \<open>prev\<close> is the character before the
  place, if there is one.
\<close>

definition COURSE_TEXT_RX :: rx where
  "COURSE_TEXT_RX =
     Seqs [Atom (OneOf ''Cc''), Atom Digit, Atom Digit, Atom Digit, Atom Digit, Atom Digit]"

definition is_word :: "char \<Rightarrow> bool" where
  "is_word c = cmatch Word c"

fun find_course_code :: "char option \<Rightarrow> string \<Rightarrow> string option" where
  "find_course_code prev [] = None"
| "find_course_code prev (c # cs) =
     (if (case prev of None \<Rightarrow> True | Some p \<Rightarrow> \<not> is_word p)
         \<and> rx_match COURSE_TEXT_RX (take 6 (c # cs))
         \<and> (case drop 6 (c # cs) of [] \<Rightarrow> True | n # _ \<Rightarrow> \<not> is_word n)
      then Some (take 6 (c # cs))
      else find_course_code (Some c) cs)"

definition extract_course_code_from_text :: "string \<Rightarrow> string option" where
  "extract_course_code_from_text text =
     (case find_course_code None text of None \<Rightarrow> None | Some m \<Rightarrow> Some (upper m))"

record history_msg =
  h_type :: "string option"
  h_text :: "string option"

record chat_request =
  message :: string
  rq_course_code :: "string option"
  rq_course_name :: "string option"
  history :: "history_msg list option"
  rq_concise :: "bool option"
  use_preprocessing :: "bool option"

record chat_response =
  response :: string
  success :: bool
  error :: "string option"

datatype http_exception = HTTPException nat string

record config =
  DEFAULT_K :: int
  DEFAULT_MODEL :: string

text \<open>The loop over the history: the code of the first user message that has one.\<close>

fun history_course_code :: "history_msg list \<Rightarrow> string option" where
  "history_course_code [] = None"
| "history_course_code (msg # rest) =
     (if h_type msg = Some ''user'' then
        (case extract_course_code_from_text (case h_text msg of None \<Rightarrow> [] | Some t \<Rightarrow> t) of
           Some code \<Rightarrow> Some code
         | None \<Rightarrow> history_course_code rest)
      else history_course_code rest)"

definition final_course_code :: "chat_request \<Rightarrow> string \<Rightarrow> string option" where
  "final_course_code request query =
     (if truthy_str (rq_course_code request) then rq_course_code request
      else
        (case extract_course_code_from_text query of
           Some code \<Rightarrow> Some code
         | None \<Rightarrow>
            (case history request of
               None \<Rightarrow> None
             | Some h \<Rightarrow> history_course_code h)))"

fun truthy_json :: "json \<Rightarrow> bool" where
  "truthy_json JNull = False"
| "truthy_json (JBool b) = b"
| "truthy_json (JNum n) = (n \<noteq> 0)"
| "truthy_json (JStr s) = (s \<noteq> [])"
| "truthy_json (JArr xs) = (xs \<noteq> [])"
| "truthy_json (JObj kvs) = (kvs \<noteq> [])"

fun type_name :: "json \<Rightarrow> string" where
  "type_name JNull = ''NoneType''"
| "type_name (JBool _) = ''bool''"
| "type_name (JNum _) = ''int''"
| "type_name (JStr _) = ''str''"
| "type_name (JArr _) = ''list''"
| "type_name (JObj _) = ''dict''"

definition sorry_response :: "py_exception \<Rightarrow> chat_response" where
  "sorry_response e =
     \<lparr>response = ''Sorry, there was an error processing your request. Please try again.'',
      success = False, error = Some (exc_str e)\<rparr>"

text \<open>
  The end of the \<open>try\<close> block of \<open>chat\<close>: the empty answer is replaced, and
  \<open>response_text.strip()\<close> raises for an answer that is not a string.
\<close>

definition finish_chat :: "json \<Rightarrow> py_exception + chat_response" where
  "finish_chat response_text =
     (if \<not> truthy_json response_text then
        Inr \<lparr>response = ''I couldn't generate a response. Please try rephrasing your question.'',
             success = True, error = None\<rparr>
      else
        (case response_text of
           JStr s \<Rightarrow>
             if strip s = [] then
               Inr \<lparr>response = ''I couldn't generate a response. Please try rephrasing your question.'',
                    success = True, error = None\<rparr>
             else Inr \<lparr>response = s, success = True, error = None\<rparr>
         | _ \<Rightarrow> Inl (AttributeError (SQ @ type_name response_text @ SQ
                                      @ '' object has no attribute '' @ SQ @ ''strip'' @ SQ))))"

text \<open>
  The pipeline part of \<open>chat\<close>: the primary path inside its own \<open>try\<close>, with
  \<open>query_courses\<close> in the \<open>except\<close> branch, or \<open>query_courses\<close> alone.
\<close>

definition run_pipeline ::
  "config \<Rightarrow> world \<Rightarrow> chat_request \<Rightarrow> string \<Rightarrow> (py_exception + json) \<times> event list" where
  "run_pipeline cfg w request query =
     (let code = final_course_code request query;
          concise = (case rq_concise request of None \<Rightarrow> True | Some b \<Rightarrow> b) in
      if use_preprocessing request = Some True then
        (case query_with_full_pipeline w [] query code (rq_course_name request)
                (DEFAULT_MODEL cfg) concise of
           (Inr text, tr) \<Rightarrow> (Inr text, tr)
         | (Inl e, tr) \<Rightarrow>
             query_courses w tr query code (rq_course_name request) (DEFAULT_K cfg) concise)
      else query_courses w [] query code (rq_course_name request) (DEFAULT_K cfg) concise)"

text \<open>
  \<open>chat(request)\<close>: \<open>Inl\<close> is the \<open>HTTPException\<close> that leaves the function; every
  other exception becomes the response that asks to try again.
\<close>

definition chat ::
  "config \<Rightarrow> world \<Rightarrow> chat_request \<Rightarrow> (http_exception + chat_response) \<times> event list" where
  "chat cfg w request =
     (let query = strip (message request) in
      if query = [] then (Inl (HTTPException 400 ''Message cannot be empty''), [])
      else
        (case run_pipeline cfg w request query of
           (Inl e, tr) \<Rightarrow> (Inr (sorry_response e), tr)
         | (Inr response_text, tr) \<Rightarrow>
             (case finish_chat response_text of
                Inl e \<Rightarrow> (Inr (sorry_response e), tr)
              | Inr resp \<Rightarrow> (Inr resp, tr))))"

text \<open>Sample worlds and a sample request.\<close>

definition one_hit :: "hit list" where
  "one_hit = [\<lparr>score = 9 / 10,
               payload = Some [''text'' \<mapsto> ''Nursing overview'', ''course_code'' \<mapsto> ''C10122'']\<rparr>]"

definition good_response :: response where
  "good_response =
     \<lparr>status_error = None,
      body = Inr (JObj [(''message'', JObj [(''role'', JStr ''assistant''),
                                            (''content'', JStr ''It is a nursing degree.'')])])\<rparr>"


definition timeout_world :: world where
  "timeout_world =
     \<lparr>w_search = (\<lambda>n req. Inr one_hit),
      w_post = (\<lambda>n req. Inl (Timeout ''Read timed out. (read timeout=180)''))\<rparr>"

definition flaky_search_world :: world where
  "flaky_search_world =
     \<lparr>w_search = (\<lambda>n req. if n = 0 then Inl (ConnectionError ''Connection refused'')
                           else Inr one_hit),
      w_post = (\<lambda>n req. Inr good_response)\<rparr>"

definition sample_config :: config where
  "sample_config = \<lparr>DEFAULT_K = 30, DEFAULT_MODEL = ''qwen2.5:7b''\<rparr>"

definition sample_request :: chat_request where
  "sample_request =
     \<lparr>message = ''What is C10122 about?'', rq_course_code = None, rq_course_name = None,
      history = None, rq_concise = Some True, use_preprocessing = Some True\<rparr>"

definition count_calls :: "event \<Rightarrow> event list \<Rightarrow> nat" where
  "count_calls ev tr = length (filter (\<lambda>x. x = ev) tr)"


section \<open>Properties of the junk filter\<close>



lemma looks_junky_blank_page:
  "looks_junky (Some ''  This page has been left INTENTIONALLY blank.  '')"
  by code_simp

lemma looks_junky_page_footer:
  "looks_junky (Some ''Page abcdefghijklmnopqrstuvwxyz 1 / abcdefghijklmnopqrstuvwxyz 2'')"
  by code_simp

lemma looks_junky_accepts_text:
  "\<not> looks_junky (Some ''The Bachelor of Nursing prepares students for practice in 2026.'')"
  by code_simp

section \<open>Properties of context assembly\<close>

lemma context_loop_included:
  "foldl (context_step m) (parts, cur) hs =
     (parts @ map format_hit (included_from m cur hs),
      cur + total_text_length (included_from m cur hs))"
  by (induction hs arbitrary: parts cur) (simp_all add: context_step_def total_text_length_def)

lemma build_course_context_included:
  "build_course_context hits m = join (NL @ NL) (map format_hit (included_hits hits m))"
  by (simp add: build_course_context_def included_hits_def context_loop_included)

lemma included_from_subseq: "subseq (included_from m cur hs) hs"
  by (induction hs arbitrary: cur) (auto intro: list_emb_Cons)

lemma included_from_budget:
  "included_from m cur hs \<noteq> [] \<Longrightarrow> int (cur + total_text_length (included_from m cur hs)) < m"
proof (induction hs arbitrary: cur)
  case Nil
  then show ?case by simp
next
  case (Cons h hs)
  show ?case
  proof (cases "int (cur + length (hit_text h)) < m")
    case fits: True
    show ?thesis
    proof (cases "included_from m (cur + length (hit_text h)) hs = []")
      case True
      with fits show ?thesis by (simp add: total_text_length_def)
    next
      case False
      from Cons.IH [OF False] fits show ?thesis
        by (simp add: total_text_length_def add.assoc)
    qed
  next
    case False
    with Cons show ?thesis by simp
  qed
qed

lemma greedy_prefix_included:
  "prefix (greedy_prefix_from m cur hs) (included_from m cur hs)"
  by (induction hs arbitrary: cur) simp_all

lemma hit_text_mk_hit: "hit_text (mk_hit t) = t"
  by (simp add: hit_text_def mk_hit_def payload_or_empty_def pget_def)

lemma format_hit_mk_hit: "format_hit (mk_hit t) = ''[]'' @ NL @ t"
  by (simp add: format_hit_def mk_hit_def payload_or_empty_def pget_def)

lemma budget_example_included:
  "included_hits budget_example 6 = [mk_hit ''aaa'', mk_hit ''cc'']"
  by (simp add: budget_example_def included_hits_def hit_text_mk_hit)

text \<open>
  Claim C8, as stated, fails. With a budget of 6 and three hits whose texts have 3, 10
  and 2 characters (15 in all), the loop includes the first hit, passes over the second
  and includes the third: the included hits are not a prefix of the ranked list, and
  inclusion has not stopped at the first hit that exceeds the budget.
\<close>

theorem context_budget_counterexample:
  "6 < int (total_text_length budget_example)
   \<and> map hit_text (included_hits budget_example 6) = [''aaa'', ''cc'']
   \<and> map hit_text (greedy_prefix_from 6 0 budget_example) = [''aaa'']
   \<and> \<not> prefix (map hit_text (included_hits budget_example 6)) (map hit_text budget_example)
   \<and> build_course_context budget_example 6 = ''[]'' @ NL @ ''aaa'' @ NL @ NL @ ''[]'' @ NL @ ''cc''"
  by (simp add: budget_example_included build_course_context_included format_hit_mk_hit
      hit_text_mk_hit)
     (simp add: budget_example_def total_text_length_def hit_text_mk_hit)

text \<open>
  Claim C8, amended. The assembled context is the included hits, formatted and joined by
  blank lines. A hit is included exactly when the text lengths included before it plus its
  own text length are strictly below \<open>max_context_length\<close>; a hit that does not fit is
  passed over and later hits that fit are still included. So the included hits are a
  subsequence of the ranked list (no reordering), their text lengths sum to less than
  the budget, and they contain every hit of the longest prefix that fits.
\<close>

theorem context_budget_amended:
  "build_course_context hits m = join (NL @ NL) (map format_hit (included_hits hits m))
   \<and> included_hits (h # hits) m =
       (if int (length (hit_text h)) < m
        then h # included_from m (length (hit_text h)) hits
        else included_hits hits m)
   \<and> subseq (included_hits hits m) hits
   \<and> (included_hits hits m \<noteq> [] \<longrightarrow> int (total_text_length (included_hits hits m)) < m)
   \<and> prefix (greedy_prefix_from m 0 hits) (included_hits hits m)"
proof -
  have "included_hits hits m \<noteq> [] \<longrightarrow> int (total_text_length (included_hits hits m)) < m"
    using included_from_budget [of m 0 hits] by (simp add: included_hits_def)
  then show ?thesis
    by (simp add: build_course_context_included included_hits_def included_from_subseq
        greedy_prefix_included)
qed

theorem context_budget_amended_witness:
  "included_hits budget_example 6 \<noteq> []
   \<and> int (total_text_length (included_hits budget_example 6)) < 6
   \<and> subseq (included_hits budget_example 6) budget_example"
  using context_budget_amended [of budget_example 6]
  by (simp add: budget_example_included)

section \<open>Properties of the field chunker\<close>

lemma strip_Nil [simp]: "strip [] = []"
  by (simp add: strip_def lstrip_def rstrip_def)

lemma field_loop_chunks:
  "foldl (field_step env r) (cs, i) fs =
     (cs @ field_chunks env r i fs, i + length (field_chunks env r i fs))"
proof (induction fs arbitrary: cs i)
  case Nil
  then show ?case by simp
next
  case (Cons fl fs)
  obtain field label where fl: "fl = (field, label)" by (cases fl)
  show ?case
  proof (cases "field_emits (e_lib env) r field")
    case True
    then have "field_step env r (cs, i) fl =
        (cs @ [emit_chunk env field label i
                (label @ '':'' @ NL @ format_field_value (e_lib env) (cd_fields r field))], i + 1)"
      by (auto simp: field_step_def field_emits_def fl Let_def)
    then show ?thesis using True by (simp add: Cons.IH fl)
  next
    case False
    then have "field_step env r (cs, i) fl = (cs, i)"
      by (auto simp: field_step_def field_emits_def fl Let_def)
    then show ?thesis using False by (simp add: Cons.IH fl)
  qed
qed

lemma outcomes_step_chunks:
  "outcomes_step env r (cs, i) =
     (cs @ outcome_chunks env r i, i + length (outcome_chunks env r i))"
  by (simp add: outcomes_step_def outcome_chunks_def Let_def)

lemma info_step_chunks:
  "info_step env r (cs, i) = (cs @ info_chunks env r i, i + length (info_chunks env r i))"
  by (simp add: info_step_def info_chunks_def Let_def)

lemma create_chunks_explicit:
  "create_chunks_from_course lib now r f =
     field_chunks (chunk_env_of lib now r f) r 0 chunkable_fields
     @ outcome_chunks (chunk_env_of lib now r f) r
         (length (field_chunks (chunk_env_of lib now r f) r 0 chunkable_fields))
     @ info_chunks (chunk_env_of lib now r f) r
         (length (field_chunks (chunk_env_of lib now r f) r 0 chunkable_fields)
          + length (outcome_chunks (chunk_env_of lib now r f) r
              (length (field_chunks (chunk_env_of lib now r f) r 0 chunkable_fields))))"
  by (simp add: create_chunks_from_course_def Let_def field_loop_chunks outcomes_step_chunks
      info_step_chunks)




lemma chunk_env_of_lib [simp]: "e_lib (chunk_env_of lib now r f) = lib"
  by (simp add: chunk_env_of_def)

lemma forget_time_emit:
  "forget_time (emit_chunk env t l i x) = emit_chunk (env\<lparr>e_ingested_at := []\<rparr>) t l i x"
  by (simp add: forget_time_def emit_chunk_def)

lemma forget_time_field_chunks:
  "map forget_time (field_chunks env r i fs) = field_chunks (env\<lparr>e_ingested_at := []\<rparr>) r i fs"
  by (induction env r i fs rule: field_chunks.induct) (simp_all add: forget_time_emit)

lemma forget_time_outcome_chunks:
  "map forget_time (outcome_chunks env r i) = outcome_chunks (env\<lparr>e_ingested_at := []\<rparr>) r i"
  by (simp add: outcome_chunks_def outcomes_step_def Let_def forget_time_emit)

lemma course_info_parts_forget:
  "course_info_parts (env\<lparr>e_ingested_at := []\<rparr>) r = course_info_parts env r"
  by (simp add: course_info_parts_def split: option.split)

lemma forget_time_info_chunks:
  "map forget_time (info_chunks env r i) = info_chunks (env\<lparr>e_ingested_at := []\<rparr>) r i"
  by (simp add: info_chunks_def info_step_def Let_def forget_time_emit course_info_parts_forget)

lemma chunk_env_of_forget:
  "(chunk_env_of lib now r f)\<lparr>e_ingested_at := []\<rparr> = chunk_env_of lib [] r f"
  by (simp add: chunk_env_of_def)

lemma length_forget: "length (field_chunks (env\<lparr>e_ingested_at := []\<rparr>) r i fs) = length (field_chunks env r i fs)"
  by (metis forget_time_field_chunks length_map)

lemma length_forget_outcome: "length (outcome_chunks (env\<lparr>e_ingested_at := []\<rparr>) r i) = length (outcome_chunks env r i)"
  by (metis forget_time_outcome_chunks length_map)

lemma create_chunks_forget_time:
  "map forget_time (create_chunks_from_course lib now r f) = create_chunks_from_course lib [] r f"
proof -
  have e: "chunk_env_of lib [] r f = (chunk_env_of lib now r f)\<lparr>e_ingested_at := []\<rparr>"
    by (simp add: chunk_env_of_forget)
  show ?thesis
    unfolding create_chunks_explicit [of lib "[]"] e
    by (simp add: create_chunks_explicit [of lib now] forget_time_field_chunks
        forget_time_outcome_chunks forget_time_info_chunks length_forget length_forget_outcome)
qed

lemma field_chunks_ids:
  "map cid (field_chunks env r i fs) = map (id_of env) (enumerate i (field_chunks env r i fs))"
  by (induction env r i fs rule: field_chunks.induct) (simp_all add: emit_chunk_def id_of_def)

lemma outcome_chunks_ids:
  "map cid (outcome_chunks env r i) = map (id_of env) (enumerate i (outcome_chunks env r i))"
  by (simp add: outcome_chunks_def outcomes_step_def Let_def emit_chunk_def id_of_def)

lemma info_chunks_ids:
  "map cid (info_chunks env r i) = map (id_of env) (enumerate i (info_chunks env r i))"
  by (simp add: info_chunks_def info_step_def Let_def emit_chunk_def id_of_def)

lemma create_chunks_ids:
  "map cid (create_chunks_from_course lib now r f) =
     map (uuid5_url lib)
       (chunk_keys (get_course_code r f) (path_stem f) (create_chunks_from_course lib now r f))"
proof -
  let ?env = "chunk_env_of lib now r f"
  have k: "map (uuid5_url lib) (chunk_keys (get_course_code r f) (path_stem f) cs)
      = map (id_of ?env) (enumerate 0 cs)" for cs
    by (simp add: chunk_keys_def id_of_def make_chunk_uuid_def chunk_env_of_def case_prod_unfold)
  show ?thesis
    unfolding k
    by (simp add: create_chunks_explicit enumerate_append_eq field_chunks_ids [symmetric]
        outcome_chunks_ids [symmetric] info_chunks_ids [symmetric])
qed

text \<open>
  Claim C1. For a fixed record and file name, two runs of the chunker (two readings of the
  clock) give the same chunk ids in the same order and the same chunk texts; the chunks
  differ at most in \<open>ingested_at\<close>. The id of the chunk at position \<open>i\<close> is the
  UUID of the key built from the resolved course code, the chunk type, \<open>i\<close> and the
  stem of the file name.
\<close>

theorem chunking_deterministic:
  "map cid (create_chunks_from_course lib now1 r f) = map cid (create_chunks_from_course lib now2 r f)
   \<and> map ctext (create_chunks_from_course lib now1 r f) = map ctext (create_chunks_from_course lib now2 r f)
   \<and> map forget_time (create_chunks_from_course lib now1 r f)
       = map forget_time (create_chunks_from_course lib now2 r f)
   \<and> map cid (create_chunks_from_course lib now1 r f) =
       map (uuid5_url lib)
         (chunk_keys (get_course_code r f) (path_stem f) (create_chunks_from_course lib now1 r f))"
proof -
  have eq: "map forget_time (create_chunks_from_course lib now1 r f)
       = map forget_time (create_chunks_from_course lib now2 r f)"
    by (simp add: create_chunks_forget_time)
  have "map cid (map forget_time cs) = map cid cs" for cs
    by (simp add: forget_time_def)
  then have ids: "map cid (create_chunks_from_course lib now1 r f) = map cid (create_chunks_from_course lib now2 r f)"
    using eq by metis
  have "map ctext (map forget_time cs) = map ctext cs" for cs
    by (simp add: forget_time_def)
  then have texts: "map ctext (create_chunks_from_course lib now1 r f) = map ctext (create_chunks_from_course lib now2 r f)"
    using eq by metis
  from eq ids texts create_chunks_ids [of lib now1 r f] show ?thesis by simp
qed



lemma strip_None: "strip ''None'' = ''None''"
  by (simp add: strip_def lstrip_def rstrip_def isspace_def)

lemma field_emits_string:
  "cd_fields r field = Some (VScalar (SStr s)) \<Longrightarrow>
     field_emits lib r field \<longleftrightarrow> 50 \<le> length (strip s)"
  by (auto simp: field_emits_def skip_value_def strip_None)







section \<open>Chunk keys\<close>



















lemma same_stem_paths:
  "path_stem same_stem_a = ''C10302''" "path_stem same_stem_b = ''C10302''"
  by code_simp+

lemma same_stem_json_files: "path_stem ''.json'' = path_stem ''.json.json''"
  by code_simp







section \<open>Course code resolution\<close>

lemma rx_match_Nul: "\<not> rx_match Nul s"
  by (induction s) simp_all

lemma course_url_starts_with_slash:
  "rx_match COURSE_URL_RX (c # cs) \<Longrightarrow> c = CHR ''/''"
  by (rule ccontr) (simp add: COURSE_URL_RX_def lit_def rx_match_Nul)

lemma search_course_url_slash:
  "search_course_url s = Some g \<Longrightarrow> CHR ''/'' \<in> set s"
proof (induction s)
  case Nil
  then show ?case by simp
next
  case (Cons c cs)
  show ?case
  proof (cases "rx_match COURSE_URL_RX (take 15 (c # cs))")
    case True
    then have "c = CHR ''/''"
      using course_url_starts_with_slash [of c "take 14 cs"] by simp
    then show ?thesis by simp
  next
    case False
    with Cons show ?thesis by simp
  qed
qed

lemma file_name_never_matches:
  "CHR ''/'' \<notin> set filename \<Longrightarrow> extract_course_code_from_url filename = None"
  using search_course_url_slash [of filename]
  by (auto simp: extract_course_code_from_url_def split: option.splits)

lemma get_course_code_of_file_name:
  assumes "CHR ''/'' \<notin> set filename"
  shows "get_course_code r filename =
     (let code = strip (case cd_course_code r of None \<Rightarrow> [] | Some c \<Rightarrow> c) in
      if code \<noteq> [] \<and> match_course_code code then upper code
      else case extract_course_code_from_url (case cd_source_url r of None \<Rightarrow> [] | Some u \<Rightarrow> u) of
             Some code \<Rightarrow> code
           | None \<Rightarrow> upper (strip (case cd_course_code r of None \<Rightarrow> ''UNKNOWN'' | Some c \<Rightarrow> c)))"
  by (simp add: get_course_code_def Let_def file_name_never_matches [OF assms] split: option.split)

text \<open>
  Claim C4 at a failing input. The third step of the resolution passes the file name to
  \<open>extract_course_code_from_url\<close>, which wants \<open>/courses/\<close> before the code; a file
  name has no slash, so the step never yields a code. For a record without course code
  and source URL and the file name \<open>Bachelor_of_Nursing_C10122.json\<close> the result is
  \<open>UNKNOWN\<close> (and the malformed value \<open>10122\<close> stays \<open>10122\<close>), although the
  extractor written for file names finds \<open>C10122\<close>.
\<close>

theorem course_code_from_filename_missed:
  "get_course_code empty_course ''Bachelor_of_Nursing_C10122.json'' = ''UNKNOWN''
   \<and> extract_course_code_from_url ''Bachelor_of_Nursing_C10122.json'' = None
   \<and> extract_course_code_from_filename ''Bachelor_of_Nursing_C10122.json'' = Some ''C10122''
   \<and> get_course_code (empty_course\<lparr>cd_course_code := Some ''10122''\<rparr>)
        ''Bachelor_of_Nursing_C10122.json'' = ''10122''"
  by code_simp

lemma course_code_priority_examples:
  "get_course_code (empty_course\<lparr>cd_course_code := Some '' c10122 '',
      cd_source_url := Some ''https://handbook.uts.edu.au/courses/c10302.html''\<rparr>) ''x.json''
     = ''C10122''"
  "get_course_code (empty_course\<lparr>cd_course_code := Some ''X10122'',
      cd_source_url := Some ''https://handbook.uts.edu.au/courses/c10302.html''\<rparr>) ''x.json''
     = ''C10302''"
  "get_course_code (empty_course\<lparr>cd_course_code := Some '' x10122 ''\<rparr>) ''x.json'' = ''X10122''"
  by code_simp+

section \<open>Properties of the embedding index writer\<close>

lemma load_row_text:
  "load_row rec = Some r \<Longrightarrow>
     row_text r = row_text rec \<and> row_id r = row_id rec \<and> \<not> looks_junky (row_text r)"
  by (auto simp: load_row_def Let_def split: if_splits)

lemma load_jsonl_Cons:
  "load_jsonl (line # lines) =
     (case line of None \<Rightarrow> load_jsonl lines
      | Some rec \<Rightarrow> (case load_row rec of None \<Rightarrow> load_jsonl lines
                      | Some r \<Rightarrow> r # load_jsonl lines))"
  by (simp add: load_jsonl_def split: option.splits)

lemma load_jsonl_not_junk: "r \<in> set (load_jsonl lines) \<Longrightarrow> \<not> looks_junky (row_text r)"
proof (induction lines)
  case Nil
  then show ?case by (simp add: load_jsonl_def)
next
  case (Cons line lines)
  then show ?case
    by (auto simp: load_jsonl_Cons dest: load_row_text split: option.splits)
qed

lemma looks_junky_None: "looks_junky None"
  by (simp add: looks_junky_def)

lemma load_jsonl_has_text: "None \<notin> set (map row_text (load_jsonl lines))"
  using load_jsonl_not_junk looks_junky_None by force

lemma load_jsonl_order:
  "map (\<lambda>r. (row_id r, row_text r)) (load_jsonl lines) =
     map (\<lambda>r. (row_id r, row_text r))
       (filter (\<lambda>r. \<not> looks_junky (row_text r)) (List.map_filter (\<lambda>line. line) lines))"
proof (induction lines)
  case Nil
  then show ?case by (simp add: load_jsonl_def)
next
  case (Cons line lines)
  show ?case
  proof (cases line)
    case None
    with Cons show ?thesis by (simp add: load_jsonl_def)
  next
    case (Some rec)
    with Cons show ?thesis
      by (auto simp: load_jsonl_def load_row_def Let_def)
  qed
qed

text \<open>
  Claim C6. When no row survives filtering, or a row has no id, or two rows share an id,
  or the encoder returns another number of rows than there are payload rows, the writer
  ends with \<open>SystemExit\<close> (a non-zero exit) and the three output files are as they
  were. In every other case it ends normally and has written the vectors, the filtered
  rows in input order, and a manifest with the point count, the vector dimension and the
  model directory.
\<close>

theorem index_writer_fail_fast:
  "(load_jsonl lines = []
      \<or> SNone \<in> set (map row_id (load_jsonl lines))
      \<or> \<not> distinct (map py_key (map row_id (load_jsonl lines)))
      \<or> length (mat_rows (w_encode env (kb_texts (load_jsonl lines)))) \<noteq> length (load_jsonl lines)
    \<longrightarrow> (\<exists>msg. fst (main_save_kb env args lines fs) = SystemExit msg)
        \<and> written_files (snd (main_save_kb env args lines fs)) = written_files fs)
   \<and> (\<not> (load_jsonl lines = []
      \<or> SNone \<in> set (map row_id (load_jsonl lines))
      \<or> \<not> distinct (map py_key (map row_id (load_jsonl lines)))
      \<or> length (mat_rows (w_encode env (kb_texts (load_jsonl lines)))) \<noteq> length (load_jsonl lines))
    \<longrightarrow> fst (main_save_kb env args lines fs) = ExitOk
        \<and> written_files (snd (main_save_kb env args lines fs)) =
            (Some (w_encode env (kb_texts (load_jsonl lines))),
             Some (load_jsonl lines),
             Some \<lparr>created_at = w_now env,
                   n_points = length (load_jsonl lines),
                   dim = mat_dim (w_encode env (kb_texts (load_jsonl lines))),
                   embed_model = a_embed_model_dir args,
                   source_jsonl = w_abspath env (a_jsonl args)\<rparr>))
   \<and> map (\<lambda>r. (row_id r, row_text r)) (load_jsonl lines) =
       map (\<lambda>r. (row_id r, row_text r))
         (filter (\<lambda>r. \<not> looks_junky (row_text r)) (List.map_filter (\<lambda>line. line) lines))"
proof -
  have c: "card (set (map py_key (map row_id (load_jsonl lines)))) \<noteq> length (map row_id (load_jsonl lines))
      \<longleftrightarrow> \<not> distinct (map py_key (map row_id (load_jsonl lines)))"
    using distinct_card [of "map py_key (map row_id (load_jsonl lines))"]
      card_distinct [of "map py_key (map row_id (load_jsonl lines))"] by auto
  have t: "None \<notin> set (map row_text (load_jsonl lines))"
    by (rule load_jsonl_has_text)
  show ?thesis
    using c t load_jsonl_order [of lines]
    by (auto simp: main_save_kb_def Let_def written_files_def)
qed

lemma text50_not_junk: "\<not> looks_junky (Some text50)"
  by code_simp

lemma load_jsonl_sample:
  "load_jsonl [Some (sample_row ''a'' text50)] =
     [\<lparr>row_id = SStr ''a'', row_text = Some text50,
       row_meta = Some [''page_end'' \<mapsto> SNone]\<rparr>]"
  by (simp add: load_jsonl_Cons load_row_def sample_row_def text50_not_junk load_jsonl_def)

theorem index_writer_fail_fast_witness:
  "load_jsonl [] = []
   \<and> (\<exists>msg. fst (main_save_kb length_encoder sample_args [] no_files) = SystemExit msg)
   \<and> written_files (snd (main_save_kb length_encoder sample_args [] no_files))
       = written_files no_files
   \<and> load_jsonl [Some (sample_row ''a'' text50)] \<noteq> []
   \<and> fst (main_save_kb length_encoder sample_args [Some (sample_row ''a'' text50)] no_files)
       = ExitOk
   \<and> payloads_jsonl (snd (main_save_kb length_encoder sample_args
          [Some (sample_row ''a'' text50)] no_files))
       = Some (load_jsonl [Some (sample_row ''a'' text50)])"
proof -
  have e: "load_jsonl [] = []"
    by (simp add: load_jsonl_def)
  have ok: "\<not> (load_jsonl [Some (sample_row ''a'' text50)] = []
      \<or> SNone \<in> set (map row_id (load_jsonl [Some (sample_row ''a'' text50)]))
      \<or> \<not> distinct (map py_key (map row_id (load_jsonl [Some (sample_row ''a'' text50)])))
      \<or> length (mat_rows (w_encode length_encoder
              (kb_texts (load_jsonl [Some (sample_row ''a'' text50)]))))
          \<noteq> length (load_jsonl [Some (sample_row ''a'' text50)]))"
    by (simp add: load_jsonl_sample length_encoder_def kb_texts_def)
  from index_writer_fail_fast [of "[]" length_encoder sample_args no_files]
       index_writer_fail_fast [of "[Some (sample_row ''a'' text50)]" length_encoder sample_args
         no_files] e ok
  show ?thesis
    by (simp add: written_files_def)
qed

section \<open>Properties of the index upsert\<close>

lemma nonblank_numbers_bound: "i \<in> set (nonblank_numbers n lines) \<Longrightarrow> n \<le> i"
proof (induction lines arbitrary: n)
  case Nil
  then show ?case by simp
next
  case (Cons l lines)
  then show ?case by (cases l) (auto dest: Suc_leD)
qed

lemma nonblank_numbers_distinct: "distinct (nonblank_numbers n lines)"
proof (induction lines arbitrary: n)
  case Nil
  then show ?case by simp
next
  case (Cons l lines)
  show ?case
  proof (cases l)
    case None
    with Cons show ?thesis by simp
  next
    case (Some r)
    have "n \<notin> set (nonblank_numbers (Suc n) lines)"
      using nonblank_numbers_bound [of n "Suc n" lines] by auto
    with Some Cons show ?thesis by simp
  qed
qed

lemma load_payloads_loop_strings:
  assumes "\<forall>r. Some r \<in> set lines \<longrightarrow> (\<exists>s. s \<noteq> [] \<and> row_id r = SStr s)"
  shows "load_payloads_loop (enumerate n lines) (ids, ps) =
     Inr (ids @ map (\<lambda>i. SInt (int i)) (nonblank_numbers n lines),
          ps @ map payload_of (List.map_filter (\<lambda>l. l) lines))"
  using assms
proof (induction lines arbitrary: n ids ps)
  case Nil
  then show ?case by simp
next
  case (Cons l lines)
  show ?case
  proof (cases l)
    case None
    with Cons show ?thesis by simp
  next
    case (Some r)
    with Cons.prems obtain s where s: "s \<noteq> []" "row_id r = SStr s" by auto
    from Cons.prems have "\<forall>r. Some r \<in> set lines \<longrightarrow> (\<exists>s. s \<noteq> [] \<and> row_id r = SStr s)"
      by simp
    from Cons.IH [OF this] Some s show ?thesis by (simp add: Let_def)
  qed
qed

lemma load_payloads_string_ids:
  assumes "\<forall>r. Some r \<in> set lines \<longrightarrow> (\<exists>s. s \<noteq> [] \<and> row_id r = SStr s)"
  shows "load_payloads lines =
     Inr (map (\<lambda>i. SInt (int i)) (nonblank_numbers 0 lines),
          map payload_of (List.map_filter (\<lambda>l. l) lines))"
proof -
  let ?ids = "map (\<lambda>i. SInt (int i)) (nonblank_numbers 0 lines)"
  have k: "map py_key ?ids = ?ids"
    by simp
  have "distinct ?ids"
    by (simp add: distinct_map nonblank_numbers_distinct inj_on_def)
  then have "card (set ?ids) = length ?ids"
    by (rule distinct_card)
  then have c: "card (set (map py_key ?ids)) = length ?ids"
    unfolding k .
  show ?thesis
    unfolding load_payloads_def load_payloads_loop_strings [OF assms, of 0 "[]" "[]"]
    using c by (simp add: image_image)
qed

lemma upsert_row_count_mismatch:
  assumes "load_payloads lines = Inr (ids, ps)" and "length (mat_rows vecs) \<noteq> length ids"
  shows "\<exists>msg. main_upsert args vecs lines db = (SystemExit msg, db)"
  using assms by (simp add: main_upsert_def)

lemma upsert_load_failure:
  assumes "load_payloads lines = Inl e"
  shows "main_upsert args vecs lines db = (e, db)"
  using assms by (simp add: main_upsert_def)

lemma upsert_duplicate_numeric_ids:
  "load_payloads [Some \<lparr>row_id = SInt 7, row_text = Some ''first'', row_meta = None\<rparr>,
                  Some \<lparr>row_id = SInt 7, row_text = Some ''second'', row_meta = None\<rparr>]
     = Inl (SystemExit ''Duplicate ids found in payloads.jsonl'')"
  by (simp add: load_payloads_def Let_def)

text \<open>
  Claim C7 at a failing input. A payloads file with two rows of the same string id
  \<open>a\<close>, with two embedding rows: every row with a string id gets its line number as
  point id before the ids are compared, so the duplicate test sees \<open>0\<close> and \<open>1\<close>,
  nothing aborts, and both rows are written to the collection as two points.
\<close>

theorem upsert_duplicate_string_ids:
  "row_id (sample_row ''a'' ''first'') = row_id (sample_row ''a'' ''second'')
   \<and> load_payloads dup_lines =
       Inr ([SInt 0, SInt 1],
            [payload_of (sample_row ''a'' ''first''), payload_of (sample_row ''a'' ''second'')])
   \<and> fst (main_upsert dup_args dup_vecs dup_lines Map.empty) = ExitOk
   \<and> stored_row_id (snd (main_upsert dup_args dup_vecs dup_lines Map.empty)) ''courses'' (SInt 0)
       = Some (SStr ''a'')
   \<and> stored_row_id (snd (main_upsert dup_args dup_vecs dup_lines Map.empty)) ''courses'' (SInt 1)
       = Some (SStr ''a'')"
  by (simp add: load_payloads_def dup_lines_def sample_row_def main_upsert_def dup_args_def
      dup_vecs_def Let_def upsert_batches.simps [of _ _ 0] upsert_batches.simps [of _ _ 64]
      upsert_points_def stored_row_id_def payload_of_def)

section \<open>Properties of answer generation\<close>

lemma strip_nonblank: "\<not> isspace c \<Longrightarrow> strip (c # s) \<noteq> []"
  by (simp add: strip_def lstrip_def rstrip_def dropWhile_append)

lemma finish_chat_error_text:
  "finish_chat (JStr (''Error generating response: '' @ m)) =
     Inr \<lparr>response = ''Error generating response: '' @ m, success = True, error = None\<rparr>"
proof -
  have "strip (''Error generating response: '' @ m) \<noteq> []"
    using strip_nonblank [of "CHR ''E''" "''rror generating response: '' @ m"]
    by (simp add: isspace_def)
  then show ?thesis by (simp add: finish_chat_def)
qed




section \<open>Properties of the chat endpoint\<close>

lemma count_calls_append: "count_calls ev (xs @ ys) = count_calls ev xs + count_calls ev ys"
  by (simp add: count_calls_def)

lemma do_search_trace: "snd (do_search w tr req) = tr @ [Search req]"
  by (simp add: do_search_def)

lemma do_answer_trace:
  "snd (do_answer w tr q c m conc) = tr @ [Post (ollama_request ''127.0.0.1'' 11434 m conc q c)]"
  by (simp add: do_answer_def)

lemma do_answer_returns: "\<exists>v. fst (do_answer w tr q c m conc) = Inr v"
  by (simp add: do_answer_def answer_with_ollama_def split: sum.splits)

lemma do_answer_not_raise: "fst (do_answer w tr q c m conc) \<noteq> Inl e"
  using do_answer_returns [of w tr q c m conc] by auto

lemma query_with_filtering_trace:
  "count_calls CallQueryCourses (snd (query_with_filtering w tr q cc cn))
     = count_calls CallQueryCourses tr"
  by (simp add: query_with_filtering_def retrieve_courses_filtered_def do_search_def
      count_calls_def split: sum.splits prod.splits)

lemma full_pipeline_trace:
  "count_calls CallQueryCourses (snd (query_with_full_pipeline w tr q cc cn m conc))
     = count_calls CallQueryCourses tr"
proof -
  have a: "count_calls CallQueryCourses (snd (query_with_filtering w (tr @ [CallFullPipeline]) q cc cn))
      = count_calls CallQueryCourses tr"
    by (simp add: query_with_filtering_trace) (simp add: count_calls_def)
  show ?thesis
    using a
    by (auto simp: query_with_full_pipeline_def Let_def do_answer_def count_calls_append
        split: sum.splits prod.splits)
       (simp_all add: count_calls_def)
qed

lemma query_courses_trace:
  "count_calls CallQueryCourses (snd (query_courses w tr q cc cn k conc))
     = Suc (count_calls CallQueryCourses tr)"
  by (simp add: query_courses_def Let_def retrieve_courses_hybrid_def do_search_def do_answer_def
      count_calls_def split: sum.splits prod.splits)

text \<open>The primary path raises exactly when retrieval or the quality check raises.\<close>

lemma full_pipeline_raises_iff:
  "(\<exists>e. fst (query_with_full_pipeline w tr q cc cn m conc) = Inl e) \<longleftrightarrow>
     (case w_search w (length (filter is_search tr)) (build_search_request q cc cn 30) of
        Inl e \<Rightarrow> True
      | Inr hits \<Rightarrow> (\<exists>e. check_result_quality (sort_key (\<lambda>h. - score h) hits) = Inl e))"
proof -
  have c: "check_result_quality [] = Inr \<lparr>has_results = False, min_results = False,
      has_high_quality = False, diverse_sources = False\<rparr>"
    by (simp add: check_result_quality_def)
  show ?thesis
    by (auto simp: query_with_full_pipeline_def Let_def query_with_filtering_def
        retrieve_courses_filtered_def do_search_def c do_answer_not_raise
        split: sum.splits prod.splits)
qed

lemma timeout_primary_answer:
  "query_with_full_pipeline timeout_world [] ''What is C10122 about?'' (Some ''C10122'') None
      ''qwen2.5:7b'' True
   = (Inr (JStr ''Error generating response: Read timed out. (read timeout=180)''),
      [CallFullPipeline,
       Search (build_search_request ''What is C10122 about?'' (Some ''C10122'') None 30),
       Post (ollama_request ''127.0.0.1'' 11434 ''qwen2.5:7b'' True ''What is C10122 about?''
               (build_course_context one_hit 4000))])"
  by (simp add: query_with_full_pipeline_def query_with_filtering_def
      retrieve_courses_filtered_def do_search_def timeout_world_def one_hit_def
      check_result_quality_def do_answer_def answer_with_ollama_def read_answer_def Let_def)

lemma sample_request_code:
  "strip (message sample_request) = ''What is C10122 about?''"
  "final_course_code sample_request ''What is C10122 about?'' = Some ''C10122''"
  by code_simp+

text \<open>
  Claim C9, as stated, fails for a failure of the generation service. With a retrieval
  that returns one hit and a generation call that times out, the primary path does not
  raise: \<open>answer_with_ollama\<close> has turned the timeout into an answer text. The
  endpoint returns that text with \<open>success = True\<close>, and \<open>query_courses\<close> is not
  called.
\<close>

theorem chat_fallback_counterexample:
  "use_preprocessing sample_request = Some True
   \<and> w_post timeout_world 0
        (ollama_request ''127.0.0.1'' 11434 ''qwen2.5:7b'' True ''What is C10122 about?''
           (build_course_context one_hit 4000))
       = Inl (Timeout ''Read timed out. (read timeout=180)'')
   \<and> fst (chat sample_config timeout_world sample_request)
       = Inr \<lparr>response = ''Error generating response: Read timed out. (read timeout=180)'',
              success = True, error = None\<rparr>
   \<and> count_calls CallQueryCourses (snd (chat sample_config timeout_world sample_request)) = 0"
proof -
  have f: "finish_chat (JStr ''Error generating response: Read timed out. (read timeout=180)'')
      = Inr \<lparr>response = ''Error generating response: Read timed out. (read timeout=180)'',
             success = True, error = None\<rparr>"
    using finish_chat_error_text [of "''Read timed out. (read timeout=180)''"] by simp
  have r: "run_pipeline sample_config timeout_world sample_request ''What is C10122 about?''
      = (Inr (JStr ''Error generating response: Read timed out. (read timeout=180)''),
      [CallFullPipeline,
       Search (build_search_request ''What is C10122 about?'' (Some ''C10122'') None 30),
       Post (ollama_request ''127.0.0.1'' 11434 ''qwen2.5:7b'' True ''What is C10122 about?''
               (build_course_context one_hit 4000))])"
    unfolding run_pipeline_def sample_request_code Let_def
    by (simp add: sample_request_def sample_config_def timeout_primary_answer)
  show ?thesis
    unfolding chat_def Let_def sample_request_code r
    by (simp add: f count_calls_def) (simp add: sample_request_def timeout_world_def)
qed

text \<open>
  Claim C9, amended. For a request with a message that is not blank and with
  preprocessing on, the endpoint never raises. When the primary path raises, the
  endpoint calls \<open>query_courses\<close> exactly once, with the same query and the same course
  filters, and returns its answer with \<open>success = True\<close> when that answer is a string
  that is not blank; when \<open>query_courses\<close> raises as well, the caller gets the fixed
  apology with \<open>success = False\<close>. When the primary path returns, \<open>query_courses\<close> is
  not called. The primary path raises exactly when retrieval raises or the quality check
  raises (a hit without payload); a failure of the generation service, its timeout
  included, never makes it raise.
\<close>

theorem chat_fallback:
  fixes cfg :: config and w :: world and request :: chat_request
  defines "query \<equiv> strip (message request)"
    and "code \<equiv> final_course_code request (strip (message request))"
    and "concise \<equiv> (case rq_concise request of None \<Rightarrow> True | Some b \<Rightarrow> b)"
  defines "primary \<equiv> query_with_full_pipeline w [] query code (rq_course_name request)
                        (DEFAULT_MODEL cfg) concise"
  defines "fallback \<equiv> query_courses w (snd primary) query code (rq_course_name request)
                        (DEFAULT_K cfg) concise"
  assumes nonblank: "strip (message request) \<noteq> []"
    and pre: "use_preprocessing request = Some True"
  shows "(\<exists>resp. fst (chat cfg w request) = Inr resp)
   \<and> (\<forall>e. fst primary = Inl e \<longrightarrow>
         count_calls CallQueryCourses (snd (chat cfg w request)) = 1
         \<and> snd (chat cfg w request) = snd fallback
         \<and> (\<forall>s. fst fallback = Inr (JStr s) \<and> strip s \<noteq> [] \<longrightarrow>
               fst (chat cfg w request) = Inr \<lparr>response = s, success = True, error = None\<rparr>)
         \<and> (\<forall>e'. fst fallback = Inl e' \<longrightarrow>
               fst (chat cfg w request) = Inr (sorry_response e')))
   \<and> (\<forall>v. fst primary = Inr v \<longrightarrow>
         count_calls CallQueryCourses (snd (chat cfg w request)) = 0)
   \<and> ((\<exists>e. fst primary = Inl e) \<longleftrightarrow>
        (case w_search w 0 (build_search_request query code (rq_course_name request) 30) of
           Inl e \<Rightarrow> True
         | Inr hits \<Rightarrow> (\<exists>e. check_result_quality (sort_key (\<lambda>h. - score h) hits) = Inl e)))"
proof -
  have run: "run_pipeline cfg w request query =
      (case primary of (Inr text, tr) \<Rightarrow> (Inr text, tr) | (Inl e, tr) \<Rightarrow> fallback)"
    by (simp add: run_pipeline_def Let_def pre query_def code_def concise_def primary_def
        fallback_def split: prod.splits sum.splits)
  have chat_eq: "chat cfg w request =
      (case run_pipeline cfg w request query of
         (Inl e, tr) \<Rightarrow> (Inr (sorry_response e), tr)
       | (Inr response_text, tr) \<Rightarrow>
           (case finish_chat response_text of
              Inl e \<Rightarrow> (Inr (sorry_response e), tr)
            | Inr resp \<Rightarrow> (Inr resp, tr)))"
    using nonblank by (simp add: chat_def Let_def query_def)
  have tr: "snd (chat cfg w request) = snd (run_pipeline cfg w request query)"
    by (simp add: chat_eq split: prod.splits sum.splits)
  have c0: "count_calls CallQueryCourses (snd primary) = 0"
    using full_pipeline_trace [of w "[]" query code "rq_course_name request" "DEFAULT_MODEL cfg" concise]
    by (simp add: primary_def count_calls_def)
  have c1: "count_calls CallQueryCourses (snd fallback) = 1"
    using query_courses_trace [of w "snd primary" query code "rq_course_name request"
        "DEFAULT_K cfg" concise] c0
    by (simp add: fallback_def)
  have one: "\<exists>resp. fst (chat cfg w request) = Inr resp"
    by (simp add: chat_eq split: prod.splits sum.splits)
  have two: "\<forall>e. fst primary = Inl e \<longrightarrow>
         count_calls CallQueryCourses (snd (chat cfg w request)) = 1
         \<and> snd (chat cfg w request) = snd fallback
         \<and> (\<forall>s. fst fallback = Inr (JStr s) \<and> strip s \<noteq> [] \<longrightarrow>
               fst (chat cfg w request) = Inr \<lparr>response = s, success = True, error = None\<rparr>)
         \<and> (\<forall>e'. fst fallback = Inl e' \<longrightarrow>
               fst (chat cfg w request) = Inr (sorry_response e'))"
  proof (intro allI impI)
    fix e
    assume p: "fst primary = Inl e"
    then have r: "run_pipeline cfg w request query = fallback"
      by (cases primary) (simp add: run)
    have t: "snd (chat cfg w request) = snd fallback"
      by (simp add: tr r)
    have s: "\<forall>s. fst fallback = Inr (JStr s) \<and> strip s \<noteq> [] \<longrightarrow>
               fst (chat cfg w request) = Inr \<lparr>response = s, success = True, error = None\<rparr>"
    proof (intro allI impI)
      fix s
      assume a: "fst fallback = Inr (JStr s) \<and> strip s \<noteq> []"
      then have "s \<noteq> []" by (auto simp: strip_def lstrip_def rstrip_def)
      with a have "finish_chat (JStr s) = Inr \<lparr>response = s, success = True, error = None\<rparr>"
        by (simp add: finish_chat_def)
      with a show "fst (chat cfg w request) = Inr \<lparr>response = s, success = True, error = None\<rparr>"
        by (cases fallback) (simp add: chat_eq r)
    qed
    have f: "\<forall>e'. fst fallback = Inl e' \<longrightarrow> fst (chat cfg w request) = Inr (sorry_response e')"
      by (cases fallback) (simp add: chat_eq r)
    from t c1 s f
    show "count_calls CallQueryCourses (snd (chat cfg w request)) = 1
         \<and> snd (chat cfg w request) = snd fallback
         \<and> (\<forall>s. fst fallback = Inr (JStr s) \<and> strip s \<noteq> [] \<longrightarrow>
               fst (chat cfg w request) = Inr \<lparr>response = s, success = True, error = None\<rparr>)
         \<and> (\<forall>e'. fst fallback = Inl e' \<longrightarrow>
               fst (chat cfg w request) = Inr (sorry_response e'))"
      by simp
  qed
  have three: "\<forall>v. fst primary = Inr v \<longrightarrow>
         count_calls CallQueryCourses (snd (chat cfg w request)) = 0"
  proof (intro allI impI)
    fix v
    assume "fst primary = Inr v"
    then have "snd (run_pipeline cfg w request query) = snd primary"
      by (cases primary) (simp add: run)
    with tr c0 show "count_calls CallQueryCourses (snd (chat cfg w request)) = 0"
      by simp
  qed
  have four: "(\<exists>e. fst primary = Inl e) \<longleftrightarrow>
        (case w_search w 0 (build_search_request query code (rq_course_name request) 30) of
           Inl e \<Rightarrow> True
         | Inr hits \<Rightarrow> (\<exists>e. check_result_quality (sort_key (\<lambda>h. - score h) hits) = Inl e))"
    using full_pipeline_raises_iff [of w "[]" query code "rq_course_name request"
        "DEFAULT_MODEL cfg" concise]
    by (simp add: primary_def)
  from one two three four show ?thesis by blast
qed

lemma flaky_primary:
  "query_with_full_pipeline flaky_search_world [] ''What is C10122 about?'' (Some ''C10122'') None
      ''qwen2.5:7b'' True
   = (Inl (ConnectionError ''Connection refused''),
      [CallFullPipeline,
       Search (build_search_request ''What is C10122 about?'' (Some ''C10122'') None 30)])"
  by (simp add: query_with_full_pipeline_def query_with_filtering_def
      retrieve_courses_filtered_def do_search_def flaky_search_world_def Let_def)

lemma flaky_fallback:
  "fst (query_courses flaky_search_world
      [CallFullPipeline,
       Search (build_search_request ''What is C10122 about?'' (Some ''C10122'') None 30)]
      ''What is C10122 about?'' (Some ''C10122'') None 30 True)
   = Inr (JStr ''It is a nursing degree.'')"
  by (simp add: query_courses_def retrieve_courses_hybrid_def do_search_def
      flaky_search_world_def one_hit_def do_answer_def answer_with_ollama_def read_answer_def
      good_response_def Let_def)

lemma sample_request_fields:
  "rq_course_name sample_request = None" "rq_concise sample_request = Some True"
  "use_preprocessing sample_request = Some True"
  "DEFAULT_MODEL sample_config = ''qwen2.5:7b''" "DEFAULT_K sample_config = 30"
  by (simp_all add: sample_request_def sample_config_def)

lemma nursing_nonblank: "strip ''It is a nursing degree.'' \<noteq> []"
  by (rule strip_nonblank) (simp add: isspace_def)

theorem chat_fallback_witness:
  "strip (message sample_request) \<noteq> []
   \<and> use_preprocessing sample_request = Some True
   \<and> fst (query_with_full_pipeline flaky_search_world [] ''What is C10122 about?''
             (Some ''C10122'') None ''qwen2.5:7b'' True)
       = Inl (ConnectionError ''Connection refused'')
   \<and> count_calls CallQueryCourses (snd (chat sample_config flaky_search_world sample_request)) = 1
   \<and> fst (chat sample_config flaky_search_world sample_request)
       = Inr \<lparr>response = ''It is a nursing degree.'', success = True, error = None\<rparr>"
proof -
  have n: "strip (message sample_request) \<noteq> []"
    by (simp add: sample_request_code)
  have p: "use_preprocessing sample_request = Some True"
    by (simp add: sample_request_fields)
  from chat_fallback [where request = sample_request and cfg = sample_config
      and w = flaky_search_world, OF n p] nursing_nonblank
  show ?thesis
    by (simp add: sample_request_code sample_request_fields flaky_primary flaky_fallback
        query_courses_trace)
       (simp add: count_calls_def)
qed

end
